theory Spec2Isabelle
  imports Main
begin

section \<open>Data model\<close>

text \<open>
  JSON values as the notebook carries them: the payload of one content type of a display
  bundle, and the values of a cell's metadata object.
\<close>

datatype json =
    JNull
  | JBool bool
  | JNum int
  | JStr string
  | JArr "json list"
  | JObj "(string \<times> json) list"

text \<open>
  JavaScript truthiness, as \<^verbatim>\<open>if (data[mimeType])\<close> tests it: \<^verbatim>\<open>null\<close>, \<^verbatim>\<open>false\<close>,
  \<^verbatim>\<open>0\<close> and the empty string are falsy, every array and object is truthy.
\<close>

fun truthy :: "json \<Rightarrow> bool" where
  "truthy JNull = False"
| "truthy (JBool b) = b"
| "truthy (JNum n) = (n \<noteq> 0)"
| "truthy (JStr s) = (s \<noteq> [])"
| "truthy (JArr xs) = True"
| "truthy (JObj kvs) = True"

text \<open>
  A display bundle maps content types to payloads (\<^verbatim>\<open>output.data\<close>); a property
  read \<^verbatim>\<open>data[mimeType]\<close> of a missing key is \<^verbatim>\<open>undefined\<close>, here \<open>None\<close>.
\<close>

type_synonym mime_bundle = "(string \<times> json) list"

text \<open>
  \<^verbatim>\<open>IOutput\<close> of the notebook format, by \<^verbatim>\<open>output_type\<close>: \<^verbatim>\<open>stream\<close> (name, text),
  \<^verbatim>\<open>execute_result\<close> and \<^verbatim>\<open>display_data\<close> (data), \<^verbatim>\<open>error\<close> (ename, evalue,
  traceback), and any other \<^verbatim>\<open>output_type\<close> string.
\<close>

datatype ioutput =
    Stream string string
  | ExecuteResult mime_bundle
  | DisplayData mime_bundle
  | Error string string "string list"
  | Unrecognized string

fun output_type :: "ioutput \<Rightarrow> string" where
  "output_type (Stream name text) = ''stream''"
| "output_type (ExecuteResult d) = ''execute_result''"
| "output_type (DisplayData d) = ''display_data''"
| "output_type (Error ename evalue tb) = ''error''"
| "output_type (Unrecognized t) = t"

section \<open>Output renderer (cell-output.tsx)\<close>

text \<open>The component that \<^verbatim>\<open>DisplayDataOutput\<close> returns, with the props it is given.\<close>

datatype rendered =
    ImageOutput json string
  | SvgOutput json
  | HtmlOutput json
  | JsonOutput json
  | PlainTextOutput json
  | NoRenderable

text \<open>Priority order for rendering different MIME types.\<close>

definition mimeTypes :: "string list" where
  "mimeTypes = [''image/png'', ''image/jpeg'', ''image/svg+xml'', ''text/html'',
                ''application/json'', ''text/plain'']"

text \<open>
  The \<^verbatim>\<open>switch (mimeType)\<close> inside the loop: each case returns a component; a
  content type with no case falls out of the switch and the loop goes on (\<open>None\<close>).
\<close>

definition mime_switch :: "string \<Rightarrow> json \<Rightarrow> rendered option" where
  "mime_switch mimeType v =
     (if mimeType = ''image/png'' \<or> mimeType = ''image/jpeg'' then Some (ImageOutput v mimeType)
      else if mimeType = ''image/svg+xml'' then Some (SvgOutput v)
      else if mimeType = ''text/html'' then Some (HtmlOutput v)
      else if mimeType = ''application/json'' then Some (JsonOutput v)
      else if mimeType = ''text/plain'' then Some (PlainTextOutput v)
      else None)"

text \<open>\<^verbatim>\<open>for (const mimeType of mimeTypes) { if (data[mimeType]) { switch ... } }\<close>\<close>

fun DisplayDataOutput_loop :: "string list \<Rightarrow> mime_bundle \<Rightarrow> rendered" where
  "DisplayDataOutput_loop [] data = NoRenderable"
| "DisplayDataOutput_loop (mimeType # rest) data =
     (case map_of data mimeType of
        None \<Rightarrow> DisplayDataOutput_loop rest data
      | Some v \<Rightarrow>
          if truthy v then
            (case mime_switch mimeType v of
               Some r \<Rightarrow> r
             | None \<Rightarrow> DisplayDataOutput_loop rest data)
          else DisplayDataOutput_loop rest data)"

definition DisplayDataOutput :: "mime_bundle \<Rightarrow> rendered" where
  "DisplayDataOutput data = DisplayDataOutput_loop mimeTypes data"

text \<open>Which content type a rendered component shows (none for the placeholder).\<close>

fun rendered_mime :: "rendered \<Rightarrow> string option" where
  "rendered_mime (ImageOutput v m) = Some m"
| "rendered_mime (SvgOutput v) = Some ''image/svg+xml''"
| "rendered_mime (HtmlOutput v) = Some ''text/html''"
| "rendered_mime (JsonOutput v) = Some ''application/json''"
| "rendered_mime (PlainTextOutput v) = Some ''text/plain''"
| "rendered_mime NoRenderable = None"

fun rendered_payload :: "rendered \<Rightarrow> json option" where
  "rendered_payload (ImageOutput v m) = Some v"
| "rendered_payload (SvgOutput v) = Some v"
| "rendered_payload (HtmlOutput v) = Some v"
| "rendered_payload (JsonOutput v) = Some v"
| "rendered_payload (PlainTextOutput v) = Some v"
| "rendered_payload NoRenderable = None"

text \<open>A content type is present in a bundle; it is renderable when its payload is truthy.\<close>

definition present :: "mime_bundle \<Rightarrow> string \<Rightarrow> bool" where
  "present data m = (map_of data m \<noteq> None)"

definition renderable :: "mime_bundle \<Rightarrow> string \<Rightarrow> bool" where
  "renderable data m = (case map_of data m of None \<Rightarrow> False | Some v \<Rightarrow> truthy v)"

section \<open>Cell store and kernel client (collaborators of notebook-interface.tsx)\<close>

datatype cell_kind = Code | Markdown

datatype cell_status = CellIdle | CellRunning | CellCompleted | CellError

datatype kernel_status = Disconnected | Connecting | Connected | Busy | Idle | Restarting

text \<open>
  \<^verbatim>\<open>NotebookCell\<close>, with the fields the components read: \<^verbatim>\<open>id\<close>, \<^verbatim>\<open>type\<close>,
  \<^verbatim>\<open>source\<close>, \<^verbatim>\<open>outputs\<close>, \<^verbatim>\<open>executionCount\<close> (a number or \<^verbatim>\<open>null\<close>), \<^verbatim>\<open>status\<close>
  and the optional \<^verbatim>\<open>metadata\<close> object.
\<close>

record notebook_cell =
  cell_id :: string
  cell_type :: cell_kind
  source :: string
  outputs :: "ioutput list"
  executionCount :: "int option"
  status :: cell_status
  metadata :: "(string \<times> json) list option"

text \<open>
  Modelled from the spec: the error classes live in the kernel client, which is not among
  the sources. What a call can throw is the error taxonomy of the design (connection, not
  ready, execution, interrupt timeout) or any other thrown value.
\<close>

datatype js_error =
    ConnectionError
  | NotReadyError
  | ExecutionError
  | InterruptTimeout
  | OtherError string

text \<open>How an (awaited) call ends: it returns, or it throws to its caller.\<close>

datatype completion = Returned | Threw js_error

text \<open>
  The observable calls, in program order: toasts, console errors, submissions to
  \<^verbatim>\<open>kernelClient.executeCode\<close> (with the source submitted) and calls of the store's
  \<^verbatim>\<open>updateCellStatus\<close>.
\<close>

datatype effect =
    ToastError string
  | ToastSuccess string
  | ConsoleError string
  | ExecuteCode string
  | UpdateCellStatus string cell_status

text \<open>
  The kernel client (\<^verbatim>\<open>lib/jupyter/kernel-client.ts\<close>) is a parameter of the model: a
  state of any type \<open>'k\<close> and its four methods. One call of \<^verbatim>\<open>executeCode\<close> invokes the
  two callbacks some number of times, in some order, and then its promise resolves with
  \<^verbatim>\<open>{ executionCount, outputs }\<close> (\<open>Inr\<close>) or rejects (\<open>Inl\<close>); \<^verbatim>\<open>restart\<close> and
  \<^verbatim>\<open>interrupt\<close> resolve (\<open>None\<close>) or reject (\<open>Some\<close> error).
\<close>

datatype callback = OnOutput ioutput | OnStatus kernel_status

record exec_result =
  result_executionCount :: "int option"
  result_outputs :: "ioutput list"

record exec_reply =
  callbacks :: "callback list"
  outcome :: "js_error + exec_result"

record 'k kernel_client =
  isReady :: "'k \<Rightarrow> bool"
  executeCode :: "'k \<Rightarrow> string \<Rightarrow> exec_reply \<times> 'k"
  restart :: "'k \<Rightarrow> js_error option \<times> 'k"
  interrupt :: "'k \<Rightarrow> js_error option \<times> 'k"

text \<open>The output events one call of \<^verbatim>\<open>executeCode\<close> streamed, in arrival order.\<close>

fun streamed :: "callback list \<Rightarrow> ioutput list" where
  "streamed [] = []"
| "streamed (OnOutput out # cbs) = out # streamed cbs"
| "streamed (OnStatus st # cbs) = streamed cbs"

text \<open>
  The state the component works on: the store's \<^verbatim>\<open>cells\<close> and \<^verbatim>\<open>kernelStatus\<close>, the
  component's \<^verbatim>\<open>kernelClient\<close> (\<open>None\<close> for \<^verbatim>\<open>null\<close>, otherwise the client's current
  state), and the trace of observable calls. A handler runs on this state alone: what
  other handlers do to the store while one is suspended in an \<^verbatim>\<open>await\<close> is modelled
  only where a property is about it (the interrupt below).
\<close>

record 'k world =
  cells :: "notebook_cell list"
  kernelStatus :: kernel_status
  kernelClient :: "'k option"
  trace :: "effect list"

definition toast_error :: "string \<Rightarrow> 'k world \<Rightarrow> 'k world" where
  "toast_error msg w = w\<lparr>trace := trace w @ [ToastError msg]\<rparr>"

definition toast_success :: "string \<Rightarrow> 'k world \<Rightarrow> 'k world" where
  "toast_success msg w = w\<lparr>trace := trace w @ [ToastSuccess msg]\<rparr>"

definition console_error :: "string \<Rightarrow> 'k world \<Rightarrow> 'k world" where
  "console_error msg w = w\<lparr>trace := trace w @ [ConsoleError msg]\<rparr>"

text \<open>
  The store (\<^verbatim>\<open>lib/stores/notebook-store.ts\<close>) is not among the sources; its operations
  are those of the design's Cell Store, a pure state container in which no operation
  reorders, adds or removes cells as a side effect.
\<close>

text \<open>
  Modelled from the spec: \<^verbatim>\<open>updateCellStatus\<close> of the missing store is the Cell Store's
  update-status, on the cell with the given id and no other.
\<close>

definition updateCellStatus :: "string \<Rightarrow> cell_status \<Rightarrow> 'k world \<Rightarrow> 'k world" where
  "updateCellStatus cellId st w =
     w\<lparr>cells := map (\<lambda>c. if cell_id c = cellId then c\<lparr>status := st\<rparr> else c) (cells w),
       trace := trace w @ [UpdateCellStatus cellId st]\<rparr>"

text \<open>
  Modelled from the spec: \<^verbatim>\<open>updateCellOutputs\<close> of the missing store sets the outputs of
  the cell with the given id; the component calls it with the whole new list.
\<close>

definition updateCellOutputs :: "string \<Rightarrow> ioutput list \<Rightarrow> 'k world \<Rightarrow> 'k world" where
  "updateCellOutputs cellId outs w =
     w\<lparr>cells := map (\<lambda>c. if cell_id c = cellId then c\<lparr>outputs := outs\<rparr> else c) (cells w)\<rparr>"

text \<open>
  Modelled from the spec: \<^verbatim>\<open>updateCellExecutionCount\<close> of the missing store is the Cell
  Store's set-execution-sequence.
\<close>

definition updateCellExecutionCount :: "string \<Rightarrow> int \<Rightarrow> 'k world \<Rightarrow> 'k world" where
  "updateCellExecutionCount cellId n w =
     w\<lparr>cells := map (\<lambda>c. if cell_id c = cellId then c\<lparr>executionCount := Some n\<rparr> else c)
                   (cells w)\<rparr>"

text \<open>
  Modelled from the spec: \<^verbatim>\<open>clearAllOutputs\<close> of the missing store is the Cell Store's
  clear-all-outputs, which "resets every cell's outputs = [] and status = idle without
  touching source".
\<close>

definition clearAllOutputs :: "'k world \<Rightarrow> 'k world" where
  "clearAllOutputs w = w\<lparr>cells := map (\<lambda>c. c\<lparr>outputs := [], status := CellIdle\<rparr>) (cells w)\<rparr>"

text \<open>
  Modelled from the spec: \<^verbatim>\<open>setKernelStatus\<close> of the missing store sets the session
  status it holds.
\<close>

definition setKernelStatus :: "kernel_status \<Rightarrow> 'k world \<Rightarrow> 'k world" where
  "setKernelStatus st w = w\<lparr>kernelStatus := st\<rparr>"

section \<open>Execution coordinator (notebook-interface.tsx)\<close>

subsection \<open>executeCell\<close>

text \<open>
  \<^verbatim>\<open>cells.find((c) => c.id === cellId)\<close> on the \<^verbatim>\<open>cells\<close> the callback closed over: the
  list of the render that created \<^verbatim>\<open>executeCell\<close>, called \<open>snapshot\<close> here. It is a
  parameter of its own, since the store moves on while the closure keeps its list.
\<close>

definition find_cell :: "notebook_cell list \<Rightarrow> string \<Rightarrow> notebook_cell option" where
  "find_cell snapshot cellId = find (\<lambda>c. cell_id c = cellId) snapshot"

text \<open>
  The first statements of the \<^verbatim>\<open>try\<close> block, up to the call of
  \<^verbatim>\<open>kernelClient.executeCode(cell.source, ...)\<close>.
\<close>

definition executeCell_begin :: "string \<Rightarrow> string \<Rightarrow> 'k world \<Rightarrow> 'k world" where
  "executeCell_begin cellId src w =
     (let w1 = updateCellStatus cellId CellRunning w;
          w2 = setKernelStatus Busy w1;
          w3 = updateCellOutputs cellId [] w2
      in w3\<lparr>trace := trace w3 @ [ExecuteCode src]\<rparr>)"

text \<open>
  The two callbacks handed to \<^verbatim>\<open>executeCode\<close>. The output callback reads the outputs of
  the closed-over \<^verbatim>\<open>cells\<close>:
  \<^verbatim>\<open>updateCellOutputs(cellId, [...cells.find((c) => c.id === cellId)?.outputs || [], output])\<close>.
\<close>

fun run_callback :: "notebook_cell list \<Rightarrow> string \<Rightarrow> 'k world \<Rightarrow> callback \<Rightarrow> 'k world" where
  "run_callback snapshot cellId w (OnOutput out) =
     updateCellOutputs cellId
       ((case find_cell snapshot cellId of None \<Rightarrow> [] | Some c \<Rightarrow> outputs c) @ [out]) w"
| "run_callback snapshot cellId w (OnStatus st) = setKernelStatus st w"

definition executeCell_stream ::
  "notebook_cell list \<Rightarrow> string \<Rightarrow> callback list \<Rightarrow> 'k world \<Rightarrow> 'k world" where
  "executeCell_stream snapshot cellId cbs w = foldl (run_callback snapshot cellId) w cbs"

text \<open>The rest of the \<^verbatim>\<open>try\<close> block, once the promise has resolved with \<open>result\<close>.\<close>

definition hasError :: "ioutput list \<Rightarrow> bool" where
  "hasError outs = list_ex (\<lambda>out. output_type out = ''error'') outs"

definition executeCell_resolved :: "string \<Rightarrow> exec_result \<Rightarrow> 'k world \<Rightarrow> 'k world" where
  "executeCell_resolved cellId result w =
     (let w1 = (case result_executionCount result of
                  None \<Rightarrow> w
                | Some n \<Rightarrow> updateCellExecutionCount cellId n w);
          w2 = updateCellOutputs cellId (result_outputs result) w1;
          w3 = updateCellStatus cellId
                 (if hasError (result_outputs result) then CellError else CellCompleted) w2
      in setKernelStatus Idle w3)"

text \<open>The \<^verbatim>\<open>catch\<close> block.\<close>

definition executeCell_catch :: "string \<Rightarrow> js_error \<Rightarrow> 'k world \<Rightarrow> 'k world" where
  "executeCell_catch cellId e w =
     (let w1 = console_error ''Cell execution error:'' w;
          w2 = updateCellStatus cellId CellError w1;
          w3 = setKernelStatus Idle w2
      in toast_error ''Cell execution failed'' w3)"

definition executeCell_settle :: "string \<Rightarrow> js_error + exec_result \<Rightarrow> 'k world \<Rightarrow> 'k world" where
  "executeCell_settle cellId out w =
     (case out of
        Inr result \<Rightarrow> executeCell_resolved cellId result w
      | Inl e \<Rightarrow> executeCell_catch cellId e w)"

text \<open>
  \<^verbatim>\<open>executeCell(cellId)\<close>: the readiness guard, the lookup guard, then the \<^verbatim>\<open>try\<close>
  block with its \<^verbatim>\<open>catch\<close>. Nothing outside the \<^verbatim>\<open>try\<close> throws and the \<^verbatim>\<open>catch\<close>
  does not rethrow, so every path ends in \<open>Returned\<close>.
\<close>

definition executeCell ::
  "'k kernel_client \<Rightarrow> notebook_cell list \<Rightarrow> string \<Rightarrow> 'k world \<Rightarrow> completion \<times> 'k world" where
  "executeCell kc snapshot cellId w =
     (case kernelClient w of
        None \<Rightarrow> (Returned, toast_error ''Kernel is not ready'' w)
      | Some k \<Rightarrow>
          if \<not> isReady kc k then (Returned, toast_error ''Kernel is not ready'' w)
          else
            (case find_cell snapshot cellId of
               None \<Rightarrow> (Returned, w)
             | Some cell \<Rightarrow>
                 if cell_type cell \<noteq> Code then (Returned, w)
                 else
                   (let w1 = executeCell_begin cellId (source cell) w;
                        (reply, k') = executeCode kc k (source cell);
                        w2 = executeCell_stream snapshot cellId (callbacks reply)
                               (w1\<lparr>kernelClient := Some k'\<rparr>)
                    in (Returned, executeCell_settle cellId (outcome reply) w2))))"

subsection \<open>runAllCells\<close>

text \<open>
  \<^verbatim>\<open>for (const cell of cells) { if (cell.type === 'code') { await executeCell(cell.id) } }\<close>
  over the closed-over \<^verbatim>\<open>cells\<close>; an \<^verbatim>\<open>await\<close> that threw would leave the loop.
\<close>

fun runAllCells_loop ::
  "'k kernel_client \<Rightarrow> notebook_cell list \<Rightarrow> notebook_cell list \<Rightarrow> 'k world
     \<Rightarrow> completion \<times> 'k world" where
  "runAllCells_loop kc snapshot [] w = (Returned, w)"
| "runAllCells_loop kc snapshot (cell # rest) w =
     (if cell_type cell = Code then
        (case executeCell kc snapshot (cell_id cell) w of
           (Returned, w') \<Rightarrow> runAllCells_loop kc snapshot rest w'
         | (Threw e, w') \<Rightarrow> (Threw e, w'))
      else runAllCells_loop kc snapshot rest w)"

definition runAllCells ::
  "'k kernel_client \<Rightarrow> notebook_cell list \<Rightarrow> 'k world \<Rightarrow> completion \<times> 'k world" where
  "runAllCells kc snapshot w =
     (case runAllCells_loop kc snapshot snapshot w of
        (Returned, w') \<Rightarrow> (Returned, toast_success ''All cells executed'' w')
      | (Threw e, w') \<Rightarrow> (Threw e, w'))"

subsection \<open>restartKernel and interruptKernel\<close>

definition restartKernel :: "'k kernel_client \<Rightarrow> 'k world \<Rightarrow> completion \<times> 'k world" where
  "restartKernel kc w =
     (case kernelClient w of
        None \<Rightarrow> (Returned, w)
      | Some k \<Rightarrow>
          (let w1 = setKernelStatus Restarting w;
               (r, k') = restart kc k;
               w2 = w1\<lparr>kernelClient := Some k'\<rparr>
           in case r of
                None \<Rightarrow>
                  (Returned,
                   toast_success ''Kernel restarted successfully''
                     (clearAllOutputs (setKernelStatus Idle w2)))
              | Some e \<Rightarrow>
                  (Returned,
                   setKernelStatus Idle
                     (toast_error ''Failed to restart kernel''
                        (console_error ''Failed to restart kernel:'' w2)))))"

definition interruptKernel :: "'k kernel_client \<Rightarrow> 'k world \<Rightarrow> completion \<times> 'k world" where
  "interruptKernel kc w =
     (case kernelClient w of
        None \<Rightarrow> (Returned, w)
      | Some k \<Rightarrow>
          (let (r, k') = interrupt kc k;
               w1 = w\<lparr>kernelClient := Some k'\<rparr>
           in case r of
                None \<Rightarrow> (Returned, toast_success ''Kernel interrupted'' (setKernelStatus Idle w1))
              | Some e \<Rightarrow>
                  (Returned,
                   toast_error ''Failed to interrupt kernel''
                     (console_error ''Failed to interrupt kernel:'' w1))))"

text \<open>
  The initialisation effect's \<^verbatim>\<open>catch\<close>, the sibling of the one in \<^verbatim>\<open>restartKernel\<close>:
  when \<^verbatim>\<open>startSession\<close> fails, the status is set to \<^verbatim>\<open>disconnected\<close>. (The
  component's own \<^verbatim>\<open>initError\<close> and \<^verbatim>\<open>isInitializing\<close> are not part of the state
  modelled.)
\<close>

definition initKernel_catch :: "'k world \<Rightarrow> 'k world" where
  "initKernel_catch w =
     toast_error ''Failed to connect to Jupyter kernel''
       (setKernelStatus Disconnected (console_error ''Failed to initialize kernel:'' w))"

subsection \<open>exportNotebook\<close>

text \<open>
  \<^verbatim>\<open>String.prototype.split('\n')\<close>: the pieces between the line feeds, in order; a
  string with n line feeds gives n + 1 pieces, the empty string gives one empty piece.
\<close>

definition LF :: char where
  "LF = CHR 0x0A"

fun split_lines :: "string \<Rightarrow> string list" where
  "split_lines [] = [[]]"
| "split_lines (c # cs) =
     (if c = LF then [] # split_lines cs
      else (case split_lines cs of
              [] \<Rightarrow> [[c]]
            | l # ls \<Rightarrow> (c # l) # ls))"

text \<open>\<^verbatim>\<open>Array.prototype.join('\n')\<close>, the inverse used to read the lines back.\<close>

fun join_lines :: "string list \<Rightarrow> string" where
  "join_lines [] = []"
| "join_lines [l] = l"
| "join_lines (l # ls) = l @ LF # join_lines ls"

record exported_cell =
  x_cell_type :: cell_kind
  x_source :: "string list"
  x_outputs :: "ioutput list"
  x_execution_count :: "int option"
  x_metadata :: "(string \<times> json) list"

record kernelspec =
  display_name :: string
  language :: string
  ks_name :: string

record language_info =
  li_name :: string
  li_version :: string

record notebook_metadata =
  nb_kernelspec :: kernelspec
  nb_language_info :: language_info

record notebook_document =
  nb_cells :: "exported_cell list"
  nb_metadata :: notebook_metadata
  nbformat :: nat
  nbformat_minor :: nat

definition export_cell :: "notebook_cell \<Rightarrow> exported_cell" where
  "export_cell cell =
     \<lparr>x_cell_type = cell_type cell,
      x_source = split_lines (source cell),
      x_outputs = outputs cell,
      x_execution_count = executionCount cell,
      x_metadata = (case metadata cell of None \<Rightarrow> [] | Some m \<Rightarrow> m)\<rparr>"

text \<open>The \<^verbatim>\<open>notebook\<close> object that \<^verbatim>\<open>exportNotebook\<close> builds and hands to \<^verbatim>\<open>JSON.stringify\<close>.\<close>

definition exportNotebook :: "notebook_cell list \<Rightarrow> notebook_document" where
  "exportNotebook cs =
     \<lparr>nb_cells = map export_cell cs,
      nb_metadata =
        \<lparr>nb_kernelspec = \<lparr>display_name = ''Python 3'', language = ''python'', ks_name = ''python3''\<rparr>,
         nb_language_info = \<lparr>li_name = ''python'', li_version = ''3.11.0''\<rparr>\<rparr>,
      nbformat = 4,
      nbformat_minor = 5\<rparr>"

section \<open>Notions used to state the properties\<close>

text \<open>
  The readiness guard of \<^verbatim>\<open>executeCell\<close>, \<^verbatim>\<open>!kernelClient || !kernelClient.isReady()\<close>,
  negated.
\<close>

definition kernel_ready :: "'k kernel_client \<Rightarrow> 'k world \<Rightarrow> bool" where
  "kernel_ready kc w = (case kernelClient w of None \<Rightarrow> False | Some k \<Rightarrow> isReady kc k)"

text \<open>The part of a trace that concerns executions: submissions and cell status updates.\<close>

fun is_run_event :: "effect \<Rightarrow> bool" where
  "is_run_event (ExecuteCode src) = True"
| "is_run_event (UpdateCellStatus cellId st) = True"
| "is_run_event e = False"

definition run_events :: "effect list \<Rightarrow> effect list" where
  "run_events tr = filter is_run_event tr"

text \<open>
  One awaited execution of a cell, as the trace shows it: the cell is marked running, its
  source is submitted, and the cell reaches the terminal status \<open>st\<close>.
\<close>

definition cell_run :: "notebook_cell \<Rightarrow> cell_status \<Rightarrow> effect list" where
  "cell_run c st =
     [UpdateCellStatus (cell_id c) CellRunning, ExecuteCode (source c),
      UpdateCellStatus (cell_id c) st]"

definition code_cells :: "notebook_cell list \<Rightarrow> notebook_cell list" where
  "code_cells cs = filter (\<lambda>c. cell_type c = Code) cs"

text \<open>
  An execution of \<open>cell\<close> during which the user interrupts: \<^verbatim>\<open>executeCell\<close> has
  submitted the source and is suspended in its \<^verbatim>\<open>await\<close>; the callbacks \<open>cbs_before\<close>
  arrive; \<^verbatim>\<open>interruptKernel\<close> runs; the callbacks \<open>cbs_after\<close> arrive. The state is the
  one in which the promise of \<^verbatim>\<open>executeCode\<close> then settles (or never does).
\<close>

definition interrupted_execution ::
  "'k kernel_client \<Rightarrow> notebook_cell list \<Rightarrow> notebook_cell \<Rightarrow> callback list \<Rightarrow> callback list
     \<Rightarrow> 'k world \<Rightarrow> 'k world" where
  "interrupted_execution kc snapshot cell cbs_before cbs_after w =
     (let w1 = executeCell_begin (cell_id cell) (source cell) w;
          w2 = executeCell_stream snapshot (cell_id cell) cbs_before w1;
          w3 = snd (interruptKernel kc w2)
      in executeCell_stream snapshot (cell_id cell) cbs_after w3)"

text \<open>
  The terminal status \<^verbatim>\<open>executeCell\<close> gives the cell once the promise of
  \<^verbatim>\<open>executeCode\<close> has settled: \<^verbatim>\<open>hasError ? 'error' : 'completed'\<close> when it resolved
  (line 111), \<^verbatim>\<open>'error'\<close> when it rejected (line 115).
\<close>

definition settled_status :: "js_error + exec_result \<Rightarrow> cell_status" where
  "settled_status out =
     (case out of
        Inl e \<Rightarrow> CellError
      | Inr result \<Rightarrow> if hasError (result_outputs result) then CellError else CellCompleted)"

text \<open>
  Run all in the words of the design: execute-one-cell is invoked on every cell of the
  list, in the order of the list, each invocation from the state in which the previous
  one ended, whatever that one did.
\<close>

fun execute_in_order ::
  "'k kernel_client \<Rightarrow> notebook_cell list \<Rightarrow> notebook_cell list \<Rightarrow> 'k world \<Rightarrow> 'k world" where
  "execute_in_order kc snapshot [] w = w"
| "execute_in_order kc snapshot (c # cs) w =
     execute_in_order kc snapshot cs (snd (executeCell kc snapshot (cell_id c) w))"

text \<open>
  The replies a kernel client gives when the sources are submitted to it one after the
  other from the state \<open>k\<close>, and the state it is in afterwards.
\<close>

fun kernel_replies :: "'k kernel_client \<Rightarrow> 'k \<Rightarrow> string list \<Rightarrow> exec_reply list" where
  "kernel_replies kc k [] = []"
| "kernel_replies kc k (src # srcs) =
     fst (executeCode kc k src) # kernel_replies kc (snd (executeCode kc k src)) srcs"

fun kernel_after :: "'k kernel_client \<Rightarrow> 'k \<Rightarrow> string list \<Rightarrow> 'k" where
  "kernel_after kc k [] = k"
| "kernel_after kc k (src # srcs) = kernel_after kc (snd (executeCode kc k src)) srcs"

section \<open>Example kernels, notebooks and bundles\<close>

text \<open>
  A kernel client that replays a script: its state is the list of replies still to give,
  one per call of \<^verbatim>\<open>executeCode\<close>; it is always ready, and restart and interrupt succeed.
\<close>

definition no_reply :: exec_reply where
  "no_reply =
     \<lparr>callbacks = [], outcome = Inr \<lparr>result_executionCount = None, result_outputs = []\<rparr>\<rparr>"

definition scripted_client :: "exec_reply list kernel_client" where
  "scripted_client =
     \<lparr>isReady = (\<lambda>k. True),
      executeCode = (\<lambda>k src. case k of [] \<Rightarrow> (no_reply, []) | r # rs \<Rightarrow> (r, rs)),
      restart = (\<lambda>k. (None, k)),
      interrupt = (\<lambda>k. (None, k))\<rparr>"

text \<open>The same client when it is not ready, and when its restart fails.\<close>

definition unready_client :: "exec_reply list kernel_client" where
  "unready_client = scripted_client\<lparr>isReady := (\<lambda>k. False)\<rparr>"

definition broken_client :: "exec_reply list kernel_client" where
  "broken_client = scripted_client\<lparr>restart := (\<lambda>k. (Some ConnectionError, k))\<rparr>"

definition old_output :: ioutput where
  "old_output = Stream ''stdout'' ''old''"

definition cell_a :: notebook_cell where
  "cell_a = \<lparr>cell_id = ''a'', cell_type = Code, source = ''x = 1'' @ LF # ''1/0'',
             outputs = [old_output], executionCount = Some 1, status = CellCompleted,
             metadata = None\<rparr>"

definition cell_m :: notebook_cell where
  "cell_m = \<lparr>cell_id = ''m'', cell_type = Markdown, source = ''hello'',
             outputs = [], executionCount = None, status = CellIdle,
             metadata = Some [(''collapsed'', JBool True)]\<rparr>"

definition cell_b :: notebook_cell where
  "cell_b = \<lparr>cell_id = ''b'', cell_type = Code, source = ''print(2+2)'',
             outputs = [], executionCount = None, status = CellIdle, metadata = None\<rparr>"

definition demo_notebook :: "notebook_cell list" where
  "demo_notebook = [cell_a, cell_m, cell_b]"

definition demo_world :: "exec_reply list \<Rightarrow> exec_reply list world" where
  "demo_world script =
     \<lparr>cells = demo_notebook, kernelStatus = Idle, kernelClient = Some script, trace = []\<rparr>"

definition zero_division :: ioutput where
  "zero_division = Error ''ZeroDivisionError'' ''division by zero'' []"

definition four :: ioutput where
  "four = Stream ''stdout'' ''4''"

definition error_result :: exec_result where
  "error_result = \<lparr>result_executionCount = Some 1, result_outputs = [zero_division]\<rparr>"

text \<open>A run that raises, a run that prints, and a run whose connection is lost.\<close>

definition reply_error :: exec_reply where
  "reply_error =
     \<lparr>callbacks = [OnStatus Busy, OnOutput zero_division], outcome = Inr error_result\<rparr>"

definition reply_four :: exec_reply where
  "reply_four =
     \<lparr>callbacks = [OnOutput four],
      outcome = Inr \<lparr>result_executionCount = Some 2, result_outputs = [four]\<rparr>\<rparr>"

definition reply_lost :: exec_reply where
  "reply_lost = \<lparr>callbacks = [OnOutput four], outcome = Inl ConnectionError\<rparr>"

text \<open>
  Display bundles: an empty markup payload beside a plain text, as an empty HTML display
  object sends; a bundle with markup and plain text; and one with no content type the
  renderer knows.
\<close>

definition html_empty_bundle :: mime_bundle where
  "html_empty_bundle = [(''text/html'', JStr []), (''text/plain'', JStr ''<HTML object>'')]"

definition rich_bundle :: mime_bundle where
  "rich_bundle = [(''text/plain'', JStr ''x''), (''text/html'', JStr ''<b>x</b>'')]"

definition pdf_bundle :: mime_bundle where
  "pdf_bundle = [(''application/pdf'', JStr ''JVBERi0='')]"

text \<open>
  A kernel client whose connection can go down: its state is whether the session is up
  and the replies still to give; it is ready while the session is up, and a call of
  \<^verbatim>\<open>executeCode\<close> that rejects takes the session down.
\<close>

definition fragile_client :: "(bool \<times> exec_reply list) kernel_client" where
  "fragile_client =
     \<lparr>isReady = (\<lambda>k. fst k),
      executeCode =
        (\<lambda>k src. case snd k of
                    [] \<Rightarrow> (no_reply, k)
                  | r # rs \<Rightarrow> (r, (case outcome r of Inl e \<Rightarrow> False | Inr res \<Rightarrow> fst k, rs))),
      restart = (\<lambda>k. (None, (True, snd k))),
      interrupt = (\<lambda>k. (None, k))\<rparr>"

definition fragile_world :: "exec_reply list \<Rightarrow> (bool \<times> exec_reply list) world" where
  "fragile_world script =
     \<lparr>cells = demo_notebook, kernelStatus = Idle, kernelClient = Some (True, script),
      trace = []\<rparr>"

text \<open>
  A run that prints in two chunks: the client streams one event per chunk and resolves
  with a result in which the two chunks are one stream output.
\<close>

definition chunk_a :: ioutput where
  "chunk_a = Stream ''stdout'' ''a''"

definition chunk_b :: ioutput where
  "chunk_b = Stream ''stdout'' ''b''"

definition chunks_joined :: ioutput where
  "chunks_joined = Stream ''stdout'' ''ab''"

definition joined_result :: exec_result where
  "joined_result = \<lparr>result_executionCount = Some 3, result_outputs = [chunks_joined]\<rparr>"

definition reply_chunks :: exec_reply where
  "reply_chunks =
     \<lparr>callbacks = [OnOutput chunk_a, OnOutput chunk_b], outcome = Inr joined_result\<rparr>"

section \<open>Auxiliary facts\<close>

subsection \<open>The store operations and the phases of executeCell\<close>

lemmas store_defs = updateCellStatus_def updateCellOutputs_def updateCellExecutionCount_def
  clearAllOutputs_def setKernelStatus_def toast_error_def toast_success_def console_error_def

lemmas executeCell_defs = executeCell_def find_cell_def executeCell_begin_def
  executeCell_stream_def executeCell_settle_def executeCell_resolved_def executeCell_catch_def
  hasError_def kernel_ready_def

lemmas demo_defs = no_reply_def scripted_client_def unready_client_def broken_client_def
  old_output_def cell_a_def cell_m_def cell_b_def demo_notebook_def demo_world_def
  zero_division_def four_def error_result_def reply_error_def reply_four_def reply_lost_def

lemma executeCell_not_ready_eq:
  "\<not> kernel_ready kc w \<Longrightarrow>
   executeCell kc snapshot cellId w = (Returned, toast_error ''Kernel is not ready'' w)"
  by (auto simp: executeCell_def kernel_ready_def split: option.splits)

lemma executeCell_ready_eq:
  assumes "kernelClient w = Some k" "isReady kc k" "find_cell snapshot cellId = Some cell"
    "cell_type cell = Code" "executeCode kc k (source cell) = (reply, k')"
  shows "executeCell kc snapshot cellId w =
    (Returned, executeCell_settle cellId (outcome reply)
       (executeCell_stream snapshot cellId (callbacks reply)
          ((executeCell_begin cellId (source cell) w)\<lparr>kernelClient := Some k'\<rparr>)))"
  using assms by (simp add: executeCell_def)

lemma stream_trace [simp]: "trace (executeCell_stream snapshot cellId cbs w) = trace w"
  unfolding executeCell_stream_def
proof (induction cbs arbitrary: w)
  case Nil show ?case by simp
next
  case (Cons cb cbs)
  show ?case by (cases cb) (simp_all add: Cons.IH store_defs)
qed

lemma stream_ids [simp]:
  "map cell_id (cells (executeCell_stream snapshot cellId cbs w)) = map cell_id (cells w)"
  unfolding executeCell_stream_def
proof (induction cbs arbitrary: w)
  case Nil show ?case by simp
next
  case (Cons cb cbs)
  show ?case by (cases cb) (simp_all add: Cons.IH store_defs comp_def)
qed

lemma stream_kernelClient [simp]:
  "kernelClient (executeCell_stream snapshot cellId cbs w) = kernelClient w"
  unfolding executeCell_stream_def
proof (induction cbs arbitrary: w)
  case Nil show ?case by simp
next
  case (Cons cb cbs)
  show ?case by (cases cb) (simp_all add: Cons.IH store_defs)
qed

lemma stream_cells_cong:
  "cells w = cells w' \<Longrightarrow>
   cells (executeCell_stream snapshot cellId cbs w) = cells (executeCell_stream snapshot cellId cbs w')"
  unfolding executeCell_stream_def
proof (induction cbs arbitrary: w w')
  case Nil then show ?case by simp
next
  case (Cons cb cbs)
  have "cells (run_callback snapshot cellId w cb) = cells (run_callback snapshot cellId w' cb)"
    using Cons.prems by (cases cb) (simp_all add: store_defs)
  then show ?case using Cons.IH by simp
qed

lemma stream_append:
  "executeCell_stream snapshot cellId (cbs1 @ cbs2) w =
   executeCell_stream snapshot cellId cbs2 (executeCell_stream snapshot cellId cbs1 w)"
  by (simp add: executeCell_stream_def)

lemma settle_cells_cong:
  "cells w = cells w' \<Longrightarrow>
   cells (executeCell_settle cellId out w) = cells (executeCell_settle cellId out w')"
  by (cases out) (simp_all add: executeCell_settle_def executeCell_resolved_def executeCell_catch_def
      store_defs Let_def split: option.splits)

lemma resolved_cells:
  "cells (executeCell_resolved cellId result w) =
   map (\<lambda>c. if cell_id c = cellId
             then c\<lparr>executionCount := (case result_executionCount result of None \<Rightarrow> executionCount c | Some n \<Rightarrow> Some n),
                    outputs := result_outputs result,
                    status := (if hasError (result_outputs result) then CellError else CellCompleted)\<rparr>
             else c) (cells w)"
  by (simp add: executeCell_resolved_def store_defs Let_def comp_def split: option.splits)

lemma catch_cells:
  "cells (executeCell_catch cellId e w) =
   map (\<lambda>c. if cell_id c = cellId then c\<lparr>status := CellError\<rparr> else c) (cells w)"
  by (simp add: executeCell_catch_def store_defs Let_def)

lemma begin_cells:
  "cells (executeCell_begin cellId src w) =
   map (\<lambda>c. if cell_id c = cellId then c\<lparr>status := CellRunning, outputs := []\<rparr> else c) (cells w)"
  by (simp add: executeCell_begin_def store_defs Let_def comp_def)

lemma interruptKernel_cells: "cells (snd (interruptKernel kc w)) = cells w"
  by (simp add: interruptKernel_def store_defs Let_def split: option.splits prod.splits)

lemma map_cell_id_update:
  "(\<And>c. cell_id (f c) = cell_id c) \<Longrightarrow> map cell_id (map f cs) = map cell_id cs"
  by (induction cs) simp_all

lemma resolved_ids:
  "map cell_id (cells (executeCell_resolved cellId result w)) = map cell_id (cells w)"
  unfolding resolved_cells by (rule map_cell_id_update) simp

lemma catch_ids:
  "map cell_id (cells (executeCell_catch cellId e w)) = map cell_id (cells w)"
  unfolding catch_cells by (rule map_cell_id_update) simp

lemma begin_ids:
  "map cell_id (cells (executeCell_begin cellId src w)) = map cell_id (cells w)"
  unfolding begin_cells by (rule map_cell_id_update) simp

lemma resolved_target:
  assumes "c \<in> set (cells (executeCell_resolved cellId result w))" "cell_id c = cellId"
  shows "outputs c = result_outputs result \<and>
         status c = (if hasError (result_outputs result) then CellError else CellCompleted)"
proof -
  from assms(1) obtain c0 where c0: "c0 \<in> set (cells w)"
    and c: "c = (if cell_id c0 = cellId
             then c0\<lparr>executionCount := (case result_executionCount result of None \<Rightarrow> executionCount c0 | Some n \<Rightarrow> Some n),
                    outputs := result_outputs result,
                    status := (if hasError (result_outputs result) then CellError else CellCompleted)\<rparr>
             else c0)"
    unfolding resolved_cells by auto
  show ?thesis
  proof (cases "cell_id c0 = cellId")
    case True
    then show ?thesis using c by simp
  next
    case False
    then show ?thesis using c assms(2) by simp
  qed
qed

lemma catch_target:
  assumes "c \<in> set (cells (executeCell_catch cellId e w))" "cell_id c = cellId"
  shows "status c = CellError"
proof -
  from assms(1) obtain c0 where c0: "c0 \<in> set (cells w)"
    and c: "c = (if cell_id c0 = cellId then c0\<lparr>status := CellError\<rparr> else c0)"
    unfolding catch_cells by auto
  show ?thesis
  proof (cases "cell_id c0 = cellId")
    case True
    then show ?thesis using c by simp
  next
    case False
    then show ?thesis using c assms(2) by simp
  qed
qed

lemma catch_outputs:
  "map outputs (cells (executeCell_catch cellId e w)) = map outputs (cells w)"
proof -
  have "map outputs (map f cs) = map outputs cs" if "\<And>c. outputs (f c) = outputs c"
    for f :: "notebook_cell \<Rightarrow> notebook_cell" and cs
    using that by (induction cs) simp_all
  then show ?thesis unfolding catch_cells by simp
qed

lemma executeCell_resolved_eq:
  assumes "kernelClient w = Some k" "isReady kc k" "find_cell snapshot cellId = Some cell"
    "cell_type cell = Code" "executeCode kc k (source cell) = (reply, k')"
    "outcome reply = Inr result"
  shows "snd (executeCell kc snapshot cellId w) =
    executeCell_resolved cellId result
      (executeCell_stream snapshot cellId (callbacks reply)
          ((executeCell_begin cellId (source cell) w)\<lparr>kernelClient := Some k'\<rparr>))"
  using executeCell_ready_eq [OF assms(1-5)] assms(6) by (simp add: executeCell_settle_def)

lemma executeCell_ids:
  "map cell_id (cells (snd (executeCell kc snapshot cellId w))) = map cell_id (cells w)"
proof -
  have "map cell_id (cells (executeCell_settle cellId out w')) = map cell_id (cells w')" for out and w' :: "'a world"
    by (cases out) (simp_all add: executeCell_settle_def resolved_ids catch_ids)
  then show ?thesis
    by (simp add: executeCell_def toast_error_def Let_def begin_ids split: option.splits prod.splits)
qed

subsection \<open>Traces of executions\<close>

lemma find_cell_distinct:
  "distinct (map cell_id snapshot) \<Longrightarrow> c \<in> set snapshot \<Longrightarrow> find_cell snapshot (cell_id c) = Some c"
  unfolding find_cell_def by (induction snapshot) auto

lemma settle_trace:
  "run_events (trace (executeCell_settle cellId out w)) =
   run_events (trace w) @
     [UpdateCellStatus cellId
        (case out of Inl e \<Rightarrow> CellError
         | Inr result \<Rightarrow> if hasError (result_outputs result) then CellError else CellCompleted)]"
  by (cases out) (simp_all add: executeCell_settle_def executeCell_resolved_def executeCell_catch_def
      store_defs Let_def run_events_def split: option.splits)

lemma settle_kernelClient [simp]:
  "kernelClient (executeCell_settle cellId out w) = kernelClient w"
  by (cases out) (simp_all add: executeCell_settle_def executeCell_resolved_def executeCell_catch_def
      store_defs Let_def split: option.splits)

lemma begin_trace:
  "run_events (trace (executeCell_begin cellId src w)) =
   run_events (trace w) @ [UpdateCellStatus cellId CellRunning, ExecuteCode src]"
  by (simp add: executeCell_begin_def store_defs Let_def run_events_def)

lemmas run_defs = fragile_client_def fragile_world_def chunk_a_def chunk_b_def
  chunks_joined_def joined_result_def reply_chunks_def

lemma executeCell_returns: "fst (executeCell kc snapshot cellId w) = Returned"
  by (simp add: executeCell_def Let_def split: option.splits prod.splits)

lemma stream_cells:
  "\<exists>f. cells (executeCell_stream snapshot cellId cbs w) =
         map (\<lambda>c. if cell_id c = cellId then c\<lparr>outputs := f c\<rparr> else c) (cells w)"
  unfolding executeCell_stream_def
proof (induction cbs arbitrary: w)
  case Nil
  have "map (\<lambda>c. if cell_id c = cellId then c\<lparr>outputs := outputs c\<rparr> else c) xs = xs"
    for xs :: "notebook_cell list"
    by (induction xs) simp_all
  then have "cells (foldl (run_callback snapshot cellId) w []) =
      map (\<lambda>c. if cell_id c = cellId then c\<lparr>outputs := outputs c\<rparr> else c) (cells w)"
    by simp
  then show ?case by (rule exI [of _ outputs])
next
  case (Cons cb cbs)
  obtain f where f: "cells (foldl (run_callback snapshot cellId) (run_callback snapshot cellId w cb) cbs) =
      map (\<lambda>c. if cell_id c = cellId then c\<lparr>outputs := f c\<rparr> else c)
        (cells (run_callback snapshot cellId w cb))"
    using Cons.IH by blast
  show ?case
  proof (cases cb)
    case (OnStatus st)
    then have "cells (run_callback snapshot cellId w cb) = cells w"
      by (simp add: setKernelStatus_def)
    with f show ?thesis by auto
  next
    case (OnOutput out)
    define os where "os = (case find_cell snapshot cellId of None \<Rightarrow> [] | Some c \<Rightarrow> outputs c) @ [out]"
    have "cells (run_callback snapshot cellId w cb) =
        map (\<lambda>c. if cell_id c = cellId then c\<lparr>outputs := os\<rparr> else c) (cells w)"
      using OnOutput by (simp add: updateCellOutputs_def os_def)
    with f have "cells (foldl (run_callback snapshot cellId) w (cb # cbs)) =
        map (\<lambda>c. if cell_id c = cellId then c\<lparr>outputs := f (c\<lparr>outputs := os\<rparr>)\<rparr> else c) (cells w)"
      by (simp add: comp_def if_distrib [of "\<lambda>c. if cell_id c = cellId then c\<lparr>outputs := f c\<rparr> else c"] cong: if_cong)
    then show ?thesis by (rule exI [of _ "\<lambda>c. f (c\<lparr>outputs := os\<rparr>)"])
  qed
qed

lemma executeCell_resolved_cells:
  assumes "kernelClient w = Some k" "isReady kc k" "find_cell snapshot cellId = Some cell"
    "cell_type cell = Code" "executeCode kc k (source cell) = (reply, k')"
    "outcome reply = Inr result"
  shows "cells (snd (executeCell kc snapshot cellId w)) =
    map (\<lambda>c. if cell_id c = cellId
              then c\<lparr>executionCount :=
                       (case result_executionCount result of
                          None \<Rightarrow> executionCount c
                        | Some n \<Rightarrow> Some n),
                     outputs := result_outputs result,
                     status := (if hasError (result_outputs result) then CellError
                                else CellCompleted)\<rparr>
              else c) (cells w)"
proof -
  let ?b = "(executeCell_begin cellId (source cell) w)\<lparr>kernelClient := Some k'\<rparr>"
  obtain f where f: "cells (executeCell_stream snapshot cellId (callbacks reply) ?b) =
      map (\<lambda>c. if cell_id c = cellId then c\<lparr>outputs := f c\<rparr> else c) (cells ?b)"
    using stream_cells by blast
  have b: "cells ?b =
      map (\<lambda>c. if cell_id c = cellId then c\<lparr>status := CellRunning, outputs := []\<rparr> else c) (cells w)"
    by (simp add: begin_cells)
  show ?thesis
    unfolding executeCell_resolved_eq [OF assms] resolved_cells f b
    by (auto simp: comp_def split: option.splits)
qed

lemma settle_trace_status:
  "run_events (trace (executeCell_settle cellId out w)) =
   run_events (trace w) @ [UpdateCellStatus cellId (settled_status out)]"
  by (simp add: settle_trace settled_status_def)

lemma settle_target:
  assumes "c \<in> set (cells (executeCell_settle cellId out w))" "cell_id c = cellId"
  shows "status c = settled_status out"
proof (cases out)
  case (Inl e)
  then show ?thesis
    using assms catch_target [of c cellId e w] by (simp add: executeCell_settle_def settled_status_def)
next
  case (Inr result)
  then show ?thesis
    using assms resolved_target [of c cellId result w]
    by (simp add: executeCell_settle_def settled_status_def)
qed

lemma executeCell_step:
  assumes "kernelClient v = Some k" "isReady kc k" "find_cell snapshot (cell_id c) = Some c"
    "cell_type c = Code"
  shows "run_events (trace (snd (executeCell kc snapshot (cell_id c) v))) =
           run_events (trace v) @ cell_run c (settled_status (outcome (fst (executeCode kc k (source c)))))"
    and "kernelClient (snd (executeCell kc snapshot (cell_id c) v)) =
           Some (snd (executeCode kc k (source c)))"
    and "\<forall>x \<in> set (cells (snd (executeCell kc snapshot (cell_id c) v))). cell_id x = cell_id c \<longrightarrow>
           status x = settled_status (outcome (fst (executeCode kc k (source c))))"
proof -
  obtain reply k' where r: "executeCode kc k (source c) = (reply, k')"
    by (cases "executeCode kc k (source c)")
  let ?b = "(executeCell_begin (cell_id c) (source c) v)\<lparr>kernelClient := Some k'\<rparr>"
  let ?v' = "executeCell_settle (cell_id c) (outcome reply)
       (executeCell_stream snapshot (cell_id c) (callbacks reply) ?b)"
  have e: "snd (executeCell kc snapshot (cell_id c) v) = ?v'"
    using executeCell_ready_eq [OF assms r] by simp
  have b: "run_events (trace ?b) =
    run_events (trace v) @ [UpdateCellStatus (cell_id c) CellRunning, ExecuteCode (source c)]"
    using begin_trace [of "cell_id c" "source c" v] by simp
  show "run_events (trace (snd (executeCell kc snapshot (cell_id c) v))) =
           run_events (trace v) @ cell_run c (settled_status (outcome (fst (executeCode kc k (source c)))))"
    unfolding e r by (simp only: settle_trace_status stream_trace b fst_conv) (simp add: cell_run_def)
  show "kernelClient (snd (executeCell kc snapshot (cell_id c) v)) =
           Some (snd (executeCode kc k (source c)))"
    unfolding e r by simp
  show "\<forall>x \<in> set (cells (snd (executeCell kc snapshot (cell_id c) v))). cell_id x = cell_id c \<longrightarrow>
           status x = settled_status (outcome (fst (executeCode kc k (source c))))"
    unfolding e r using settle_target by fastforce
qed

lemma runAllCells_loop_eq:
  "runAllCells_loop kc snapshot cs w = (Returned, execute_in_order kc snapshot (code_cells cs) w)"
proof (induction cs arbitrary: w)
  case Nil
  show ?case by (simp add: code_cells_def)
next
  case (Cons c cs)
  show ?case
  proof (cases "cell_type c = Code")
    case False
    then show ?thesis using Cons.IH by (simp add: code_cells_def)
  next
    case True
    obtain w1 where w1: "executeCell kc snapshot (cell_id c) w = (Returned, w1)"
      using executeCell_returns [of kc snapshot "cell_id c" w]
      by (cases "executeCell kc snapshot (cell_id c) w") simp
    then show ?thesis using True Cons.IH by (simp add: code_cells_def)
  qed
qed

lemma execute_in_order_ready:
  assumes "\<forall>k. isReady kc k"
  shows "\<forall>c \<in> set cs. find_cell snapshot (cell_id c) = Some c \<and> cell_type c = Code \<Longrightarrow>
    kernelClient w = Some k \<Longrightarrow>
    run_events (trace (execute_in_order kc snapshot cs w)) =
      run_events (trace w) @
      concat (map2 cell_run cs
                (map (\<lambda>r. settled_status (outcome r)) (kernel_replies kc k (map source cs)))) \<and>
    kernelClient (execute_in_order kc snapshot cs w) = Some (kernel_after kc k (map source cs))"
proof (induction cs arbitrary: w k)
  case Nil
  then show ?case by simp
next
  case (Cons c cs)
  have f: "find_cell snapshot (cell_id c) = Some c" and t: "cell_type c = Code"
    and rest: "\<forall>c \<in> set cs. find_cell snapshot (cell_id c) = Some c \<and> cell_type c = Code"
    using Cons.prems(1) by simp_all
  have r: "isReady kc k" using assms by simp
  let ?w1 = "snd (executeCell kc snapshot (cell_id c) w)"
  let ?k1 = "snd (executeCode kc k (source c))"
  note s = executeCell_step [OF Cons.prems(2) r f t]
  have ih: "run_events (trace (execute_in_order kc snapshot cs ?w1)) =
      run_events (trace ?w1) @
      concat (map2 cell_run cs
                (map (\<lambda>r. settled_status (outcome r)) (kernel_replies kc ?k1 (map source cs)))) \<and>
    kernelClient (execute_in_order kc snapshot cs ?w1) = Some (kernel_after kc ?k1 (map source cs))"
    by (rule Cons.IH [OF rest s(2)])
  show ?case
    using ih s(1) by simp
qed

subsection \<open>Lines of a source text\<close>

lemma split_lines_not_Nil: "split_lines s \<noteq> []"
  by (induction s) (auto split: list.splits)

lemma join_split_lines: "join_lines (split_lines s) = s"
proof (induction s)
  case Nil show ?case by simp
next
  case (Cons c s)
  obtain l ls where s: "split_lines s = l # ls"
    using split_lines_not_Nil [of s] by (cases "split_lines s") auto
  show ?case
  proof (cases "c = LF")
    case True
    then show ?thesis using Cons.IH s by simp
  next
    case False
    then show ?thesis using Cons.IH s by (cases ls) simp_all
  qed
qed

lemma split_lines_no_LF: "l \<in> set (split_lines s) \<Longrightarrow> LF \<notin> set l"
  by (induction s arbitrary: l) (auto split: list.splits if_splits)

subsection \<open>The renderer loop\<close>

lemma mime_switch_mimeTypes:
  "m \<in> set mimeTypes \<Longrightarrow> \<exists>r. mime_switch m v = Some r \<and> rendered_mime r = Some m \<and> rendered_payload r = Some v"
  by (auto simp: mimeTypes_def mime_switch_def)

lemma DisplayDataOutput_loop_find:
  "set ms \<subseteq> set mimeTypes \<Longrightarrow>
   DisplayDataOutput_loop ms data =
     (case find (renderable data) ms of
        None \<Rightarrow> NoRenderable
      | Some m \<Rightarrow> the (mime_switch m (the (map_of data m))))"
proof (induction ms)
  case Nil
  then show ?case by simp
next
  case (Cons m ms)
  then have m: "m \<in> set mimeTypes" and ms: "set ms \<subseteq> set mimeTypes" by auto
  show ?case
  proof (cases "map_of data m")
    case None
    then show ?thesis using Cons.IH [OF ms] by (simp add: renderable_def)
  next
    case (Some v)
    obtain r where r: "mime_switch m v = Some r" using mime_switch_mimeTypes [OF m] by blast
    show ?thesis using Some r Cons.IH [OF ms] by (simp add: renderable_def)
  qed
qed

subsection \<open>The example runs, evaluated\<close>


lemma demo_lost_run:
  "executeCell scripted_client demo_notebook ''a'' (demo_world [reply_lost]) =
    (Returned,
     \<lparr>cells = [cell_a\<lparr>outputs := [old_output, four], status := CellError\<rparr>, cell_m, cell_b],
      kernelStatus = Idle, kernelClient = Some [],
      trace = [UpdateCellStatus ''a'' CellRunning, ExecuteCode (source cell_a),
               ConsoleError ''Cell execution error:'', UpdateCellStatus ''a'' CellError,
               ToastError ''Cell execution failed'']\<rparr>)"
  by (simp add: executeCell_defs store_defs demo_defs)

lemma demo_run_all:
  "runAllCells scripted_client demo_notebook (demo_world [reply_error, reply_four]) =
    (Returned,
     \<lparr>cells = [cell_a\<lparr>outputs := [zero_division], status := CellError\<rparr>, cell_m,
               cell_b\<lparr>outputs := [four], executionCount := Some 2, status := CellCompleted\<rparr>],
      kernelStatus = Idle, kernelClient = Some [],
      trace = [UpdateCellStatus ''a'' CellRunning, ExecuteCode (source cell_a),
               UpdateCellStatus ''a'' CellError,
               UpdateCellStatus ''b'' CellRunning, ExecuteCode ''print(2+2)'',
               UpdateCellStatus ''b'' CellCompleted,
               ToastSuccess ''All cells executed'']\<rparr>)"
  by (simp add: runAllCells_def executeCell_defs store_defs demo_defs)

section \<open>Run all\<close>

text \<open>
  Claim C1, as amended. For every notebook (the cells that \<^verbatim>\<open>runAllCells\<close> closed over,
  with their distinct ids), run all invokes execute-one-cell on exactly the code cells,
  in notebook order and strictly sequentially: each invocation starts from the state in
  which the previous one ended, and run all then returns and reports "All cells
  executed", whatever the cells did. An invocation made while the session is not ready
  submits nothing and only shows "Kernel is not ready". An invocation made while it is
  ready marks the cell running, submits its source and leaves the cell in the terminal
  status that the kernel's reply decides (error when the reply carries an error output or
  the call fails, completed otherwise) before the next cell is looked at; a cell that ends
  in error is followed by the invocation for the next code cell like any other. While the
  session stays ready, the executions are therefore exactly one per code cell, in notebook
  order, each with the status of the reply the kernel gave to that submission.
\<close>

theorem runAllCells_in_order:
  assumes "distinct (map cell_id snapshot)"
  shows "runAllCells kc snapshot w =
      (Returned,
       toast_success ''All cells executed''
         (execute_in_order kc snapshot (code_cells snapshot) w)) \<and>
    (\<forall>c \<in> set (code_cells snapshot). \<forall>v.
       (\<not> kernel_ready kc v \<longrightarrow>
          snd (executeCell kc snapshot (cell_id c) v) = toast_error ''Kernel is not ready'' v) \<and>
       (\<forall>k. kernelClient v = Some k \<and> isReady kc k \<longrightarrow>
          run_events (trace (snd (executeCell kc snapshot (cell_id c) v))) =
            run_events (trace v) @
            cell_run c (settled_status (outcome (fst (executeCode kc k (source c))))) \<and>
          kernelClient (snd (executeCell kc snapshot (cell_id c) v)) =
            Some (snd (executeCode kc k (source c))) \<and>
          map cell_id (cells (snd (executeCell kc snapshot (cell_id c) v))) = map cell_id (cells v) \<and>
          (\<forall>x \<in> set (cells (snd (executeCell kc snapshot (cell_id c) v))).
             cell_id x = cell_id c \<longrightarrow>
               status x = settled_status (outcome (fst (executeCode kc k (source c))))))) \<and>
    (\<forall>k0. (\<forall>k. isReady kc k) \<and> kernelClient w = Some k0 \<longrightarrow>
       run_events (trace (snd (runAllCells kc snapshot w))) =
         run_events (trace w) @
         concat (map2 cell_run (code_cells snapshot)
                   (map (\<lambda>r. settled_status (outcome r))
                      (kernel_replies kc k0 (map source (code_cells snapshot))))) \<and>
       kernelClient (snd (runAllCells kc snapshot w)) =
         Some (kernel_after kc k0 (map source (code_cells snapshot))))"
proof (intro conjI ballI allI impI)
  show all: "runAllCells kc snapshot w =
      (Returned,
       toast_success ''All cells executed''
         (execute_in_order kc snapshot (code_cells snapshot) w))"
    by (simp add: runAllCells_def runAllCells_loop_eq)
  have code: "find_cell snapshot (cell_id c) = Some c \<and> cell_type c = Code"
    if "c \<in> set (code_cells snapshot)" for c
    using that find_cell_distinct [OF assms, of c] by (simp add: code_cells_def)
  {
    fix c v
    assume c: "c \<in> set (code_cells snapshot)"
    {
      assume "\<not> kernel_ready kc v"
      then show "snd (executeCell kc snapshot (cell_id c) v) = toast_error ''Kernel is not ready'' v"
        by (simp add: executeCell_not_ready_eq)
    }
    show "map cell_id (cells (snd (executeCell kc snapshot (cell_id c) v))) = map cell_id (cells v)"
      if "kernelClient v = Some k \<and> isReady kc k" for k
      by (rule executeCell_ids)
    fix k
    assume k: "kernelClient v = Some k \<and> isReady kc k"
    note s = executeCell_step [of v k kc snapshot c]
    show "run_events (trace (snd (executeCell kc snapshot (cell_id c) v))) =
            run_events (trace v) @
            cell_run c (settled_status (outcome (fst (executeCode kc k (source c)))))"
      using s(1) k code [OF c] by blast
    show "kernelClient (snd (executeCell kc snapshot (cell_id c) v)) =
            Some (snd (executeCode kc k (source c)))"
      using s(2) k code [OF c] by blast
    fix x
    assume "x \<in> set (cells (snd (executeCell kc snapshot (cell_id c) v)))" "cell_id x = cell_id c"
    then show "status x = settled_status (outcome (fst (executeCode kc k (source c))))"
      using s(3) k code [OF c] by blast
  }
  fix k0
  assume r: "(\<forall>k. isReady kc k) \<and> kernelClient w = Some k0"
  have each: "\<forall>c \<in> set (code_cells snapshot). find_cell snapshot (cell_id c) = Some c \<and> cell_type c = Code"
    using code by blast
  have o: "run_events (trace (execute_in_order kc snapshot (code_cells snapshot) w)) =
      run_events (trace w) @
      concat (map2 cell_run (code_cells snapshot)
                (map (\<lambda>r. settled_status (outcome r))
                   (kernel_replies kc k0 (map source (code_cells snapshot))))) \<and>
    kernelClient (execute_in_order kc snapshot (code_cells snapshot) w) =
      Some (kernel_after kc k0 (map source (code_cells snapshot)))"
    using execute_in_order_ready [of kc "code_cells snapshot" snapshot w k0] r each by blast
  show "run_events (trace (snd (runAllCells kc snapshot w))) =
         run_events (trace w) @
         concat (map2 cell_run (code_cells snapshot)
                   (map (\<lambda>r. settled_status (outcome r))
                      (kernel_replies kc k0 (map source (code_cells snapshot)))))"
    using o by (simp add: all toast_success_def run_events_def)
  show "kernelClient (snd (runAllCells kc snapshot w)) =
         Some (kernel_after kc k0 (map source (code_cells snapshot)))"
    using o by (simp add: all toast_success_def)
qed

theorem runAllCells_in_order_witness:
  "distinct (map cell_id demo_notebook) \<and>
   runAllCells scripted_client demo_notebook (demo_world [reply_error, reply_four]) =
     (Returned,
      toast_success ''All cells executed''
        (execute_in_order scripted_client demo_notebook (code_cells demo_notebook)
           (demo_world [reply_error, reply_four]))) \<and>
   code_cells demo_notebook = [cell_a, cell_b] \<and>
   \<not> kernel_ready scripted_client ((demo_world [])\<lparr>kernelClient := None\<rparr>) \<and>
   snd (executeCell scripted_client demo_notebook ''a'' ((demo_world [])\<lparr>kernelClient := None\<rparr>)) =
     toast_error ''Kernel is not ready'' ((demo_world [])\<lparr>kernelClient := None\<rparr>) \<and>
   kernelClient (demo_world [reply_error, reply_four]) = Some [reply_error, reply_four] \<and>
   isReady scripted_client [reply_error, reply_four] \<and>
   run_events (trace (snd (executeCell scripted_client demo_notebook ''a''
                             (demo_world [reply_error, reply_four])))) =
     cell_run cell_a CellError \<and>
   kernelClient (snd (executeCell scripted_client demo_notebook ''a''
                        (demo_world [reply_error, reply_four]))) = Some [reply_four] \<and>
   run_events (trace (snd (runAllCells scripted_client demo_notebook
                             (demo_world [reply_error, reply_four])))) =
     cell_run cell_a CellError @ cell_run cell_b CellCompleted \<and>
   kernelClient (snd (runAllCells scripted_client demo_notebook
                        (demo_world [reply_error, reply_four]))) = Some []"
proof -
  let ?W = "demo_world [reply_error, reply_four]"
  let ?N = "(demo_world [])\<lparr>kernelClient := None\<rparr>"
  have h: "distinct (map cell_id demo_notebook)"
    by (simp add: demo_notebook_def cell_a_def cell_m_def cell_b_def)
  note t = runAllCells_in_order [OF h, of scripted_client ?W]
  note n = runAllCells_in_order [OF h, of scripted_client ?N]
  have cc: "code_cells demo_notebook = [cell_a, cell_b]"
    by (simp add: code_cells_def demo_notebook_def cell_a_def cell_m_def cell_b_def)
  have a: "cell_a \<in> set (code_cells demo_notebook)" "cell_id cell_a = ''a''"
    by (simp_all add: cc cell_a_def)
  have nr: "\<not> kernel_ready scripted_client ?N"
    by (simp add: kernel_ready_def)
  have k: "kernelClient ?W = Some [reply_error, reply_four]"
    "isReady scripted_client [reply_error, reply_four]" "\<forall>k. isReady scripted_client k"
    by (simp_all add: demo_world_def scripted_client_def)
  have st: "settled_status (outcome (fst (executeCode scripted_client [reply_error, reply_four]
                                            (source cell_a)))) = CellError"
    "snd (executeCode scripted_client [reply_error, reply_four] (source cell_a)) = [reply_four]"
    by (simp_all add: scripted_client_def settled_status_def hasError_def reply_error_def
        error_result_def zero_division_def)
  have rs: "map (\<lambda>r. settled_status (outcome r))
              (kernel_replies scripted_client [reply_error, reply_four]
                 (map source (code_cells demo_notebook))) = [CellError, CellCompleted]"
    "kernel_after scripted_client [reply_error, reply_four]
       (map source (code_cells demo_notebook)) = []"
    by (simp_all add: cc scripted_client_def settled_status_def hasError_def reply_error_def
        reply_four_def error_result_def zero_division_def four_def)
  have tr: "run_events (trace ?W) = []"
    by (simp add: demo_world_def run_events_def)
  from t have all: "runAllCells scripted_client demo_notebook ?W =
     (Returned,
      toast_success ''All cells executed''
        (execute_in_order scripted_client demo_notebook (code_cells demo_notebook) ?W))"
    by (rule conjunct1)
  from n a(1) nr have refused:
    "snd (executeCell scripted_client demo_notebook (cell_id cell_a) ?N) =
       toast_error ''Kernel is not ready'' ?N"
    by blast
  from t a(1) k(1,2) have step:
    "run_events (trace (snd (executeCell scripted_client demo_notebook (cell_id cell_a) ?W))) =
       run_events (trace ?W) @
       cell_run cell_a (settled_status (outcome (fst (executeCode scripted_client
                          [reply_error, reply_four] (source cell_a)))))"
    "kernelClient (snd (executeCell scripted_client demo_notebook (cell_id cell_a) ?W)) =
       Some (snd (executeCode scripted_client [reply_error, reply_four] (source cell_a)))"
    by blast+
  from t k(1,3) have whole:
    "run_events (trace (snd (runAllCells scripted_client demo_notebook ?W))) =
       run_events (trace ?W) @
       concat (map2 cell_run (code_cells demo_notebook)
                 (map (\<lambda>r. settled_status (outcome r))
                    (kernel_replies scripted_client [reply_error, reply_four]
                       (map source (code_cells demo_notebook)))))"
    "kernelClient (snd (runAllCells scripted_client demo_notebook ?W)) =
       Some (kernel_after scripted_client [reply_error, reply_four]
               (map source (code_cells demo_notebook)))"
    by blast+
  have s1: "run_events (trace (snd (executeCell scripted_client demo_notebook ''a'' ?W))) =
      cell_run cell_a CellError"
    using step(1) by (simp only: st tr a(2) append_Nil)
  have s2: "kernelClient (snd (executeCell scripted_client demo_notebook ''a'' ?W)) =
      Some [reply_four]"
    using step(2) by (simp only: st a(2))
  have w1: "run_events (trace (snd (runAllCells scripted_client demo_notebook ?W))) =
      cell_run cell_a CellError @ cell_run cell_b CellCompleted"
    using whole(1) unfolding rs tr by (simp add: cc)
  have w2: "kernelClient (snd (runAllCells scripted_client demo_notebook ?W)) = Some []"
    using whole(2) by (simp only: rs)
  from refused have r': "snd (executeCell scripted_client demo_notebook ''a'' ?N) =
      toast_error ''Kernel is not ready'' ?N"
    by (simp only: a(2))
  from h all cc nr r' k(1,2) s1 s2 w1 w2 show ?thesis
    by (intro conjI)
qed

text \<open>
  The claim as stated has every code cell executed and the cell after an errored one
  submitted. When the connection is lost while cell \<open>a\<close> runs, \<open>a\<close> ends in error, the
  session is no longer ready, and cell \<open>b\<close> is refused with a toast and never submitted;
  run all still reports "All cells executed".
\<close>

theorem runAllCells_lost_session_skips_cell:
  "code_cells demo_notebook = [cell_a, cell_b] \<and>
   kernel_ready fragile_client (fragile_world [reply_lost, reply_four]) \<and>
   trace (snd (runAllCells fragile_client demo_notebook (fragile_world [reply_lost, reply_four]))) =
     [UpdateCellStatus ''a'' CellRunning, ExecuteCode (source cell_a),
      ConsoleError ''Cell execution error:'', UpdateCellStatus ''a'' CellError,
      ToastError ''Cell execution failed'',
      ToastError ''Kernel is not ready'',
      ToastSuccess ''All cells executed''] \<and>
   map status (cells (snd (runAllCells fragile_client demo_notebook
                             (fragile_world [reply_lost, reply_four])))) =
     [CellError, CellIdle, CellIdle] \<and>
   ExecuteCode (source cell_b) \<notin>
     set (trace (snd (runAllCells fragile_client demo_notebook
                        (fragile_world [reply_lost, reply_four]))))"
proof -
  have cc: "code_cells demo_notebook = [cell_a, cell_b]"
    by (simp add: code_cells_def demo_notebook_def cell_a_def cell_m_def cell_b_def)
  have r: "kernel_ready fragile_client (fragile_world [reply_lost, reply_four])"
    by (simp add: kernel_ready_def fragile_client_def fragile_world_def)
  have run: "snd (runAllCells fragile_client demo_notebook (fragile_world [reply_lost, reply_four])) =
     \<lparr>cells = [cell_a\<lparr>outputs := [old_output, four], status := CellError\<rparr>, cell_m, cell_b],
      kernelStatus = Idle, kernelClient = Some (False, [reply_four]),
      trace = [UpdateCellStatus ''a'' CellRunning, ExecuteCode (source cell_a),
               ConsoleError ''Cell execution error:'', UpdateCellStatus ''a'' CellError,
               ToastError ''Cell execution failed'',
               ToastError ''Kernel is not ready'',
               ToastSuccess ''All cells executed'']\<rparr>"
    by (simp add: runAllCells_def executeCell_defs store_defs demo_defs run_defs)
  have "ExecuteCode (source cell_b) \<notin>
     set (trace (snd (runAllCells fragile_client demo_notebook
                        (fragile_world [reply_lost, reply_four]))))"
    unfolding run by (simp add: cell_a_def cell_b_def LF_def)
  moreover have "map status (cells (snd (runAllCells fragile_client demo_notebook
                             (fragile_world [reply_lost, reply_four])))) =
     [CellError, CellIdle, CellIdle]"
    unfolding run by (simp add: cell_a_def cell_m_def cell_b_def)
  ultimately show ?thesis
    using cc r run by simp
qed

section \<open>Executing one cell\<close>

text \<open>
  Claim C2, as amended. For every execution of a code cell that the ready kernel client
  completes (its promise resolves), the cell's outputs after the execution are exactly
  the outputs listed in the result the client resolved with, in the order of that list,
  whatever events were handed to the output callback meanwhile; they are the streamed
  events in arrival order exactly when the result lists those. No other cell changes, and
  of the executed cell only the outputs, the status and (when the result carries one) the
  execution count do.
\<close>

theorem executeCell_outputs_are_result:
  assumes "kernelClient w = Some k" "isReady kc k" "find_cell snapshot cellId = Some cell"
    "cell_type cell = Code" "executeCode kc k (source cell) = (reply, k')"
    "outcome reply = Inr result"
  shows "cells (snd (executeCell kc snapshot cellId w)) =
      map (\<lambda>c. if cell_id c = cellId
                then c\<lparr>executionCount :=
                         (case result_executionCount result of
                            None \<Rightarrow> executionCount c
                          | Some n \<Rightarrow> Some n),
                       outputs := result_outputs result,
                       status := (if hasError (result_outputs result) then CellError
                                  else CellCompleted)\<rparr>
                else c) (cells w) \<and>
    (\<forall>c \<in> set (cells (snd (executeCell kc snapshot cellId w))). cell_id c = cellId \<longrightarrow>
       outputs c = result_outputs result \<and>
       (outputs c = streamed (callbacks reply) \<longleftrightarrow>
          result_outputs result = streamed (callbacks reply)))"
proof (intro conjI ballI impI)
  show "cells (snd (executeCell kc snapshot cellId w)) =
      map (\<lambda>c. if cell_id c = cellId
                then c\<lparr>executionCount :=
                         (case result_executionCount result of
                            None \<Rightarrow> executionCount c
                          | Some n \<Rightarrow> Some n),
                       outputs := result_outputs result,
                       status := (if hasError (result_outputs result) then CellError
                                  else CellCompleted)\<rparr>
                else c) (cells w)"
    by (rule executeCell_resolved_cells [OF assms])
next
  fix c
  assume "c \<in> set (cells (snd (executeCell kc snapshot cellId w)))" and "cell_id c = cellId"
  then have o: "outputs c = result_outputs result"
    using resolved_target unfolding executeCell_resolved_eq [OF assms] by blast
  then show "outputs c = result_outputs result" .
  from o show "outputs c = streamed (callbacks reply) \<longleftrightarrow>
      result_outputs result = streamed (callbacks reply)"
    by simp
qed

text \<open>A run whose result lists the one event it streamed:\<close>

theorem executeCell_outputs_are_result_witness:
  "kernelClient (demo_world [reply_four]) = Some [reply_four] \<and>
   isReady scripted_client [reply_four] \<and>
   find_cell demo_notebook ''b'' = Some cell_b \<and>
   cell_type cell_b = Code \<and>
   executeCode scripted_client [reply_four] (source cell_b) = (reply_four, []) \<and>
   outcome reply_four = Inr \<lparr>result_executionCount = Some 2, result_outputs = [four]\<rparr> \<and>
   streamed (callbacks reply_four) = [four] \<and>
   cells (snd (executeCell scripted_client demo_notebook ''b'' (demo_world [reply_four]))) =
     [cell_a, cell_m,
      cell_b\<lparr>executionCount := Some 2, outputs := [four], status := CellCompleted\<rparr>] \<and>
   outputs (cells (snd (executeCell scripted_client demo_notebook ''b''
                          (demo_world [reply_four]))) ! 2) = streamed (callbacks reply_four)"
proof -
  let ?w' = "snd (executeCell scripted_client demo_notebook ''b'' (demo_world [reply_four]))"
  let ?r = "\<lparr>result_executionCount = Some 2, result_outputs = [four]\<rparr>"
  have h1: "kernelClient (demo_world [reply_four]) = Some [reply_four]"
    by (simp add: demo_world_def)
  have h2: "isReady scripted_client [reply_four]"
    by (simp add: scripted_client_def)
  have h3: "find_cell demo_notebook ''b'' = Some cell_b"
    by (simp add: find_cell_def demo_notebook_def cell_a_def cell_m_def cell_b_def)
  have h4: "cell_type cell_b = Code"
    by (simp add: cell_b_def)
  have h5: "executeCode scripted_client [reply_four] (source cell_b) = (reply_four, [])"
    by (simp add: scripted_client_def)
  have h6: "outcome reply_four = Inr ?r"
    by (simp add: reply_four_def)
  have s: "streamed (callbacks reply_four) = [four]"
    by (simp add: reply_four_def)
  note t = executeCell_outputs_are_result [OF h1 h2 h3 h4 h5 h6]
  from t have "cells ?w' =
      map (\<lambda>c. if cell_id c = ''b''
                then c\<lparr>executionCount :=
                         (case result_executionCount ?r of
                            None \<Rightarrow> executionCount c
                          | Some n \<Rightarrow> Some n),
                       outputs := result_outputs ?r,
                       status := (if hasError (result_outputs ?r) then CellError
                                  else CellCompleted)\<rparr>
                else c) (cells (demo_world [reply_four]))"
    by (rule conjunct1)
  then have c: "cells ?w' =
     [cell_a, cell_m,
      cell_b\<lparr>executionCount := Some 2, outputs := [four], status := CellCompleted\<rparr>]"
    by (simp add: demo_world_def demo_notebook_def cell_a_def cell_m_def cell_b_def hasError_def
        four_def)
  have m: "cells ?w' ! 2 \<in> set (cells ?w')" "cell_id (cells ?w' ! 2) = ''b''"
    unfolding c by (simp_all add: cell_b_def)
  from t m have "outputs (cells ?w' ! 2) = streamed (callbacks reply_four) \<longleftrightarrow>
      result_outputs ?r = streamed (callbacks reply_four)"
    by blast
  then have o: "outputs (cells ?w' ! 2) = streamed (callbacks reply_four)"
    using s by simp
  from h1 h2 h3 h4 h5 h6 s c o show ?thesis
    by (intro conjI)
qed

text \<open>
  The claim as stated has the outputs equal the events received. A run streams two
  events, one per chunk printed, and its result lists one output that joins them: after
  the execution the cell holds the one output of the result, not the two events.
\<close>

theorem executeCell_outputs_not_streamed_events:
  "outcome reply_chunks = Inr joined_result \<and>
   streamed (callbacks reply_chunks) = [chunk_a, chunk_b] \<and>
   fst (executeCell scripted_client demo_notebook ''b'' (demo_world [reply_chunks])) = Returned \<and>
   map status (cells (snd (executeCell scripted_client demo_notebook ''b''
                             (demo_world [reply_chunks])))) =
     [CellCompleted, CellIdle, CellCompleted] \<and>
   outputs (cells (snd (executeCell scripted_client demo_notebook ''b''
                          (demo_world [reply_chunks]))) ! 2) = [chunks_joined] \<and>
   outputs (cells (snd (executeCell scripted_client demo_notebook ''b''
                          (demo_world [reply_chunks]))) ! 2) \<noteq> streamed (callbacks reply_chunks)"
  by (simp add: executeCell_defs store_defs demo_defs run_defs)



text \<open>
  Claim C6, as amended. For every call of \<^verbatim>\<open>executeCell\<close> made while the session is not
  ready (no kernel client, or \<^verbatim>\<open>isReady()\<close> false), the call reports "Kernel is not
  ready" with an error toast and returns normally; it raises no error, and it performs no
  mutation: the cells (status, outputs and execution count of each), the session status
  and the kernel client are unchanged.
\<close>

theorem executeCell_not_ready_no_mutation:
  assumes "\<not> kernel_ready kc w"
  shows "fst (executeCell kc snapshot cellId w) = Returned \<and>
         cells (snd (executeCell kc snapshot cellId w)) = cells w \<and>
         kernelStatus (snd (executeCell kc snapshot cellId w)) = kernelStatus w \<and>
         kernelClient (snd (executeCell kc snapshot cellId w)) = kernelClient w \<and>
         trace (snd (executeCell kc snapshot cellId w)) =
           trace w @ [ToastError ''Kernel is not ready'']"
  using executeCell_not_ready_eq [OF assms, of snapshot cellId] by (simp add: toast_error_def)

text \<open>Before the kernel client exists (\<^verbatim>\<open>kernelClient\<close> is \<^verbatim>\<open>null\<close>):\<close>

theorem executeCell_not_ready_no_mutation_witness:
  "\<not> kernel_ready scripted_client ((demo_world [])\<lparr>kernelClient := None\<rparr>) \<and>
   fst (executeCell scripted_client demo_notebook ''a'' ((demo_world [])\<lparr>kernelClient := None\<rparr>))
     = Returned \<and>
   cells (snd (executeCell scripted_client demo_notebook ''a''
                 ((demo_world [])\<lparr>kernelClient := None\<rparr>))) = demo_notebook \<and>
   kernelStatus (snd (executeCell scripted_client demo_notebook ''a''
                        ((demo_world [])\<lparr>kernelClient := None\<rparr>))) = Idle \<and>
   trace (snd (executeCell scripted_client demo_notebook ''a''
                 ((demo_world [])\<lparr>kernelClient := None\<rparr>))) = [ToastError ''Kernel is not ready'']"
proof -
  have h: "\<not> kernel_ready scripted_client ((demo_world [])\<lparr>kernelClient := None\<rparr>)"
    by (simp add: kernel_ready_def)
  from h executeCell_not_ready_no_mutation [OF h, of demo_notebook "''a''"] show ?thesis
    by (simp add: demo_world_def)
qed

text \<open>
  The claim as stated has the call fail with \<^verbatim>\<open>NotReadyError\<close>: with a client that is
  not ready the call returns normally instead.
\<close>

theorem executeCell_not_ready_returns:
  "\<not> kernel_ready unready_client (demo_world []) \<and>
   fst (executeCell unready_client demo_notebook ''a'' (demo_world [])) = Returned \<and>
   fst (executeCell unready_client demo_notebook ''a'' (demo_world [])) \<noteq> Threw NotReadyError"
  by (simp add: executeCell_def kernel_ready_def demo_world_def unready_client_def scripted_client_def)

text \<open>
  Claim C5, as amended. For every execution of a code cell in which the call of
  \<^verbatim>\<open>executeCode\<close> fails (a transport failure or any other error) after any number of
  callbacks: the error is caught inside \<^verbatim>\<open>executeCell\<close>, which returns normally and shows
  the toast "Cell execution failed" (nothing is propagated to the caller); the cell's status
  is set to error and the session status to idle; and the handler leaves the outputs of
  every cell as the store held them when the failure occurred.
\<close>

theorem executeCell_failure_caught:
  assumes "kernelClient w = Some k" "isReady kc k" "find_cell snapshot cellId = Some cell"
    "cell_type cell = Code" "executeCode kc k (source cell) = (reply, k')"
    "outcome reply = Inl e"
  shows "fst (executeCell kc snapshot cellId w) = Returned \<and>
    kernelStatus (snd (executeCell kc snapshot cellId w)) = Idle \<and>
    (\<forall>c \<in> set (cells (snd (executeCell kc snapshot cellId w))). cell_id c = cellId \<longrightarrow>
       status c = CellError) \<and>
    map outputs (cells (snd (executeCell kc snapshot cellId w))) =
      map outputs (cells (executeCell_stream snapshot cellId (callbacks reply)
                            (executeCell_begin cellId (source cell) w))) \<and>
    last (trace (snd (executeCell kc snapshot cellId w))) = ToastError ''Cell execution failed''"
proof -
  let ?b = "executeCell_begin cellId (source cell) w"
  let ?w = "executeCell_stream snapshot cellId (callbacks reply) (?b\<lparr>kernelClient := Some k'\<rparr>)"
  have e: "executeCell kc snapshot cellId w = (Returned, executeCell_catch cellId e ?w)"
    using executeCell_ready_eq [OF assms(1-5)] assms(6) by (simp add: executeCell_settle_def)
  have c: "cells ?w = cells (executeCell_stream snapshot cellId (callbacks reply) ?b)"
    using stream_cells_cong [of "?b\<lparr>kernelClient := Some k'\<rparr>" ?b] by simp
  have "map outputs (cells (executeCell_catch cellId e ?w)) = map outputs (cells ?w)"
    by (rule catch_outputs)
  moreover have "kernelStatus (executeCell_catch cellId e ?w) = Idle"
    by (simp add: executeCell_catch_def store_defs Let_def)
  moreover have "last (trace (executeCell_catch cellId e ?w)) = ToastError ''Cell execution failed''"
    by (simp add: executeCell_catch_def store_defs Let_def)
  moreover have "\<forall>c \<in> set (cells (executeCell_catch cellId e ?w)).
      cell_id c = cellId \<longrightarrow> status c = CellError"
    using catch_target by blast
  ultimately show ?thesis using e c by simp
qed

theorem executeCell_failure_caught_witness:
  "kernelClient (demo_world [reply_lost]) = Some [reply_lost] \<and>
   isReady scripted_client [reply_lost] \<and>
   find_cell demo_notebook ''a'' = Some cell_a \<and>
   cell_type cell_a = Code \<and>
   executeCode scripted_client [reply_lost] (source cell_a) = (reply_lost, []) \<and>
   outcome reply_lost = Inl ConnectionError \<and>
   fst (executeCell scripted_client demo_notebook ''a'' (demo_world [reply_lost])) = Returned \<and>
   kernelStatus (snd (executeCell scripted_client demo_notebook ''a'' (demo_world [reply_lost])))
     = Idle \<and>
   status (cells (snd (executeCell scripted_client demo_notebook ''a''
                         (demo_world [reply_lost]))) ! 0) = CellError \<and>
   map outputs (cells (snd (executeCell scripted_client demo_notebook ''a''
                              (demo_world [reply_lost])))) =
     map outputs (cells (executeCell_stream demo_notebook ''a'' (callbacks reply_lost)
                           (executeCell_begin ''a'' (source cell_a) (demo_world [reply_lost])))) \<and>
   last (trace (snd (executeCell scripted_client demo_notebook ''a'' (demo_world [reply_lost]))))
     = ToastError ''Cell execution failed''"
proof -
  let ?w' = "snd (executeCell scripted_client demo_notebook ''a'' (demo_world [reply_lost]))"
  have h1: "kernelClient (demo_world [reply_lost]) = Some [reply_lost]"
    by (simp add: demo_world_def)
  have h2: "isReady scripted_client [reply_lost]"
    by (simp add: scripted_client_def)
  have h3: "find_cell demo_notebook ''a'' = Some cell_a"
    by (simp add: find_cell_def demo_notebook_def cell_a_def)
  have h4: "cell_type cell_a = Code"
    by (simp add: cell_a_def)
  have h5: "executeCode scripted_client [reply_lost] (source cell_a) = (reply_lost, [])"
    by (simp add: scripted_client_def)
  have h6: "outcome reply_lost = Inl ConnectionError"
    by (simp add: reply_lost_def)
  note t = executeCell_failure_caught [OF h1 h2 h3 h4 h5 h6]
  have c: "cells ?w' ! 0 \<in> set (cells ?w')" "cell_id (cells ?w' ! 0) = ''a''"
    by (simp_all add: demo_lost_run cell_a_def)
  have s: "status (cells ?w' ! 0) = CellError"
    using t c by blast
  from t have r: "fst (executeCell scripted_client demo_notebook ''a'' (demo_world [reply_lost]))
      = Returned"
    and i: "kernelStatus ?w' = Idle"
    and m: "map outputs (cells ?w') =
      map outputs (cells (executeCell_stream demo_notebook ''a'' (callbacks reply_lost)
                            (executeCell_begin ''a'' (source cell_a) (demo_world [reply_lost]))))"
    and l: "last (trace ?w') = ToastError ''Cell execution failed''"
    by blast+
  from h1 h2 h3 h4 h5 h6 r i s m l show ?thesis
    by (intro conjI)
qed

text \<open>
  The claim as stated has a \<^verbatim>\<open>ConnectionError\<close> propagated to the caller: when the call
  of \<^verbatim>\<open>executeCode\<close> rejects with one, \<^verbatim>\<open>executeCell\<close> returns normally.
\<close>

theorem executeCell_connection_error_not_propagated:
  "outcome (fst (executeCode scripted_client [reply_lost] (source cell_a))) = Inl ConnectionError \<and>
   fst (executeCell scripted_client demo_notebook ''a'' (demo_world [reply_lost])) = Returned \<and>
   fst (executeCell scripted_client demo_notebook ''a'' (demo_world [reply_lost]))
     \<noteq> Threw ConnectionError"
proof -
  have "outcome (fst (executeCode scripted_client [reply_lost] (source cell_a))) = Inl ConnectionError"
    by (simp add: scripted_client_def reply_lost_def)
  then show ?thesis
    by (simp add: demo_lost_run)
qed

section \<open>Restart and interrupt\<close>

text \<open>
  Claim C3, as amended. For every invocation of \<^verbatim>\<open>restartKernel\<close> with a kernel client:
  when the restart of the kernel succeeds, the outputs of every cell are cleared (and
  every cell's status is reset to idle), since the handler calls the store's
  clear-all-outputs; when the restart fails, every cell is left untouched.
\<close>

theorem restartKernel_clears_outputs:
  assumes "kernelClient w = Some k"
  shows "(fst (restart kc k) = None \<longrightarrow>
           cells (snd (restartKernel kc w)) =
             map (\<lambda>c. c\<lparr>outputs := [], status := CellIdle\<rparr>) (cells w)) \<and>
         (fst (restart kc k) \<noteq> None \<longrightarrow> cells (snd (restartKernel kc w)) = cells w)"
  using assms
  by (auto simp: restartKernel_def store_defs Let_def split: prod.splits option.splits)

theorem restartKernel_clears_outputs_witness:
  "kernelClient (demo_world []) = Some [] \<and>
   fst (restart scripted_client []) = None \<and>
   cells (snd (restartKernel scripted_client (demo_world []))) =
     map (\<lambda>c. c\<lparr>outputs := [], status := CellIdle\<rparr>) (cells (demo_world [])) \<and>
   fst (restart broken_client []) \<noteq> None \<and>
   cells (snd (restartKernel broken_client (demo_world []))) = cells (demo_world [])"
proof -
  have h: "kernelClient (demo_world []) = Some []"
    by (simp add: demo_world_def)
  have ok: "fst (restart scripted_client []) = None"
    by (simp add: scripted_client_def)
  have ko: "fst (restart broken_client []) \<noteq> None"
    by (simp add: broken_client_def)
  from restartKernel_clears_outputs [OF h, of scripted_client] ok
  have a: "cells (snd (restartKernel scripted_client (demo_world []))) =
     map (\<lambda>c. c\<lparr>outputs := [], status := CellIdle\<rparr>) (cells (demo_world []))"
    by blast
  from restartKernel_clears_outputs [OF h, of broken_client] ko
  have b: "cells (snd (restartKernel broken_client (demo_world []))) = cells (demo_world [])"
    by blast
  from h ok a ko b show ?thesis
    by (intro conjI)
qed

text \<open>
  The claim as stated leaves the outputs of completed cells untouched: cell \<open>a\<close> is
  completed and has an output, and a successful restart empties it.
\<close>

theorem restartKernel_empties_completed_cell:
  "cells (demo_world []) ! 0 = cell_a \<and>
   status cell_a = CellCompleted \<and>
   outputs cell_a = [old_output] \<and>
   fst (restart scripted_client []) = None \<and>
   map outputs (cells (snd (restartKernel scripted_client (demo_world [])))) = [[], [], []]"
  by (simp add: restartKernel_def store_defs demo_defs)

text \<open>
  Claim C4. Whenever the restart of the kernel fails, the session status should be forced
  to disconnected. The handler's \<^verbatim>\<open>catch\<close> sets it to idle: with a client whose restart
  rejects with a connection error, the status after \<^verbatim>\<open>restartKernel\<close> is idle, whereas
  the \<^verbatim>\<open>catch\<close> of the initialisation sets disconnected when the connection fails.
\<close>

theorem restartKernel_failure_sets_idle:
  "fst (restart broken_client []) = Some ConnectionError \<and>
   kernelStatus (snd (restartKernel broken_client (demo_world []))) = Idle \<and>
   kernelStatus (snd (restartKernel broken_client (demo_world []))) \<noteq> Disconnected \<and>
   kernelStatus (initKernel_catch (demo_world [])) = Disconnected"
  by (simp add: restartKernel_def initKernel_catch_def store_defs demo_world_def
      broken_client_def scripted_client_def)

text \<open>
  Claim C8, as amended. Interrupting records nothing in any cell: \<^verbatim>\<open>interruptKernel\<close>
  leaves every cell as it is (no synthetic error output, no status change), and the cells
  after an interrupted execution settles are those of the same execution without the
  interrupt. The status and outputs of the interrupted cell come from what the call of
  \<^verbatim>\<open>executeCode\<close> delivers alone.
\<close>

theorem interrupt_changes_no_cell:
  "cells (snd (interruptKernel kc w)) = cells w \<and>
   cells (executeCell_settle (cell_id cell) out
            (interrupted_execution kc snapshot cell cbs_before cbs_after w)) =
   cells (executeCell_settle (cell_id cell) out
            (executeCell_stream snapshot (cell_id cell) (cbs_before @ cbs_after)
               (executeCell_begin (cell_id cell) (source cell) w)))"
proof -
  let ?w2 = "executeCell_stream snapshot (cell_id cell) cbs_before
               (executeCell_begin (cell_id cell) (source cell) w)"
  have "cells (executeCell_stream snapshot (cell_id cell) cbs_after (snd (interruptKernel kc ?w2))) =
        cells (executeCell_stream snapshot (cell_id cell) cbs_after ?w2)"
    by (rule stream_cells_cong) (rule interruptKernel_cells)
  then have "cells (interrupted_execution kc snapshot cell cbs_before cbs_after w) =
     cells (executeCell_stream snapshot (cell_id cell) (cbs_before @ cbs_after)
               (executeCell_begin (cell_id cell) (source cell) w))"
    by (simp add: interrupted_execution_def Let_def stream_append)
  then show ?thesis
    using interruptKernel_cells [of kc w] settle_cells_cong [of _ _ "cell_id cell" out] by simp
qed

theorem interrupt_changes_no_cell_witness:
  "cells (snd (interruptKernel scripted_client (demo_world []))) = demo_notebook \<and>
   cells (executeCell_settle (cell_id cell_b) (outcome reply_four)
            (interrupted_execution scripted_client demo_notebook cell_b [] (callbacks reply_four)
               (demo_world []))) =
   [cell_a, cell_m,
    cell_b\<lparr>outputs := [four], executionCount := Some 2, status := CellCompleted\<rparr>]"
proof -
  have "cells (executeCell_settle (cell_id cell_b) (outcome reply_four)
            (executeCell_stream demo_notebook (cell_id cell_b) ([] @ callbacks reply_four)
               (executeCell_begin (cell_id cell_b) (source cell_b) (demo_world [])))) =
    [cell_a, cell_m,
     cell_b\<lparr>outputs := [four], executionCount := Some 2, status := CellCompleted\<rparr>]"
    by (simp add: executeCell_defs store_defs demo_defs)
  then show ?thesis
    using interrupt_changes_no_cell [of scripted_client "demo_world []" cell_b "outcome reply_four"
        demo_notebook "[]" "callbacks reply_four"]
    by (simp add: demo_world_def)
qed

text \<open>
  The claim as stated has the interrupted cell become errored with a synthetic
  "interrupted" error output. Cell \<open>b\<close> is interrupted before the kernel has sent
  anything: it is still running, with no output; and when the call of \<^verbatim>\<open>executeCode\<close>
  then resolves without outputs, the cell is completed, with no output.
\<close>

theorem interrupted_cell_not_errored:
  "map status (cells (interrupted_execution scripted_client demo_notebook cell_b [] []
                        (demo_world []))) = [CellCompleted, CellIdle, CellRunning] \<and>
   map outputs (cells (interrupted_execution scripted_client demo_notebook cell_b [] []
                         (demo_world []))) = [[old_output], [], []] \<and>
   map status (cells (executeCell_settle ''b'' (outcome no_reply)
                        (interrupted_execution scripted_client demo_notebook cell_b [] []
                           (demo_world [])))) = [CellCompleted, CellIdle, CellCompleted] \<and>
   map outputs (cells (executeCell_settle ''b'' (outcome no_reply)
                         (interrupted_execution scripted_client demo_notebook cell_b [] []
                            (demo_world [])))) = [[old_output], [], []]"
  by (simp add: interrupted_execution_def interruptKernel_def executeCell_defs store_defs demo_defs)

section \<open>Export\<close>

text \<open>
  Claim C9. For every notebook, the exported document has one entry per cell, in notebook
  order; the entry of a cell carries the cell's type, its source as the ordered list of
  its lines (no line contains a line feed, and joining them with line feeds gives the
  source back), its outputs, its execution count and its metadata (an empty object when
  the cell has none); the document carries the format version 4.5 and the kernel
  descriptor of Python 3.
\<close>

theorem exportNotebook_document:
  "length (nb_cells (exportNotebook cs)) = length cs \<and>
   (\<forall>i < length cs.
      x_cell_type (nb_cells (exportNotebook cs) ! i) = cell_type (cs ! i) \<and>
      x_source (nb_cells (exportNotebook cs) ! i) = split_lines (source (cs ! i)) \<and>
      join_lines (x_source (nb_cells (exportNotebook cs) ! i)) = source (cs ! i) \<and>
      (\<forall>l \<in> set (x_source (nb_cells (exportNotebook cs) ! i)). LF \<notin> set l) \<and>
      x_outputs (nb_cells (exportNotebook cs) ! i) = outputs (cs ! i) \<and>
      x_execution_count (nb_cells (exportNotebook cs) ! i) = executionCount (cs ! i) \<and>
      x_metadata (nb_cells (exportNotebook cs) ! i) =
        (case metadata (cs ! i) of None \<Rightarrow> [] | Some m \<Rightarrow> m)) \<and>
   nbformat (exportNotebook cs) = 4 \<and> nbformat_minor (exportNotebook cs) = 5 \<and>
   ks_name (nb_kernelspec (nb_metadata (exportNotebook cs))) = ''python3'' \<and>
   display_name (nb_kernelspec (nb_metadata (exportNotebook cs))) = ''Python 3'' \<and>
   language (nb_kernelspec (nb_metadata (exportNotebook cs))) = ''python''"
proof -
  have cells: "nb_cells (exportNotebook cs) = map export_cell cs"
    by (simp add: exportNotebook_def)
  have doc: "nbformat (exportNotebook cs) = 4 \<and> nbformat_minor (exportNotebook cs) = 5 \<and>
      ks_name (nb_kernelspec (nb_metadata (exportNotebook cs))) = ''python3'' \<and>
      display_name (nb_kernelspec (nb_metadata (exportNotebook cs))) = ''Python 3'' \<and>
      language (nb_kernelspec (nb_metadata (exportNotebook cs))) = ''python''"
    by (simp add: exportNotebook_def)
  have each: "x_cell_type (export_cell c) = cell_type c \<and>
      x_source (export_cell c) = split_lines (source c) \<and>
      join_lines (x_source (export_cell c)) = source c \<and>
      (\<forall>l \<in> set (x_source (export_cell c)). LF \<notin> set l) \<and>
      x_outputs (export_cell c) = outputs c \<and>
      x_execution_count (export_cell c) = executionCount c \<and>
      x_metadata (export_cell c) = (case metadata c of None \<Rightarrow> [] | Some m \<Rightarrow> m)" for c
    using split_lines_no_LF [of _ "source c"] by (simp add: export_cell_def join_split_lines)
  show ?thesis
    unfolding cells using doc each by (simp add: join_split_lines split_lines_no_LF)
qed

text \<open>The first cell of the example notebook has a source of two lines and no metadata.\<close>

theorem exportNotebook_document_witness:
  "(0::nat) < length demo_notebook \<and>
   length (nb_cells (exportNotebook demo_notebook)) = 3 \<and>
   x_cell_type (nb_cells (exportNotebook demo_notebook) ! 0) = Code \<and>
   x_source (nb_cells (exportNotebook demo_notebook) ! 0) = [''x = 1'', ''1/0''] \<and>
   join_lines [''x = 1'', ''1/0''] = source cell_a \<and>
   x_outputs (nb_cells (exportNotebook demo_notebook) ! 0) = [old_output] \<and>
   x_execution_count (nb_cells (exportNotebook demo_notebook) ! 0) = Some 1 \<and>
   x_metadata (nb_cells (exportNotebook demo_notebook) ! 0) = [] \<and>
   nbformat (exportNotebook demo_notebook) = 4 \<and> nbformat_minor (exportNotebook demo_notebook) = 5"
proof -
  have n: "(0::nat) < length demo_notebook" "length demo_notebook = 3"
    "demo_notebook ! 0 = cell_a"
    by (simp_all add: demo_notebook_def)
  have s: "split_lines (source cell_a) = [''x = 1'', ''1/0'']"
    by (simp add: cell_a_def LF_def)
  have a: "cell_type cell_a = Code" "outputs cell_a = [old_output]"
    "executionCount cell_a = Some 1" "metadata cell_a = None"
    by (simp_all add: cell_a_def)
  from exportNotebook_document [of demo_notebook] n
  have "x_cell_type (nb_cells (exportNotebook demo_notebook) ! 0) = cell_type cell_a \<and>
      x_source (nb_cells (exportNotebook demo_notebook) ! 0) = split_lines (source cell_a) \<and>
      join_lines (x_source (nb_cells (exportNotebook demo_notebook) ! 0)) = source cell_a \<and>
      x_outputs (nb_cells (exportNotebook demo_notebook) ! 0) = outputs cell_a \<and>
      x_execution_count (nb_cells (exportNotebook demo_notebook) ! 0) = executionCount cell_a \<and>
      x_metadata (nb_cells (exportNotebook demo_notebook) ! 0) =
        (case metadata cell_a of None \<Rightarrow> [] | Some m \<Rightarrow> m)"
    by (metis (no_types, lifting))
  with exportNotebook_document [of demo_notebook] n s a show ?thesis
    by simp
qed

section \<open>Choice of the representation to render\<close>

text \<open>
  Claim C10, as amended. For every result or display output, whatever the number of
  content types in its bundle, the renderer shows exactly one thing: the first content
  type, in the priority order image/png, image/jpeg, image/svg+xml, text/html,
  application/json, text/plain, whose payload in the bundle is truthy (present, and not an
  empty string, zero, false or null), rendered with that payload; when no content type of
  the list has a truthy payload, the placeholder "No renderable output".
\<close>

theorem DisplayDataOutput_first_renderable:
  "(\<forall>i < length mimeTypes.
      renderable data (mimeTypes ! i) \<and> (\<forall>j < i. \<not> renderable data (mimeTypes ! j)) \<longrightarrow>
        rendered_mime (DisplayDataOutput data) = Some (mimeTypes ! i) \<and>
        rendered_payload (DisplayDataOutput data) = map_of data (mimeTypes ! i)) \<and>
   ((\<forall>m \<in> set mimeTypes. \<not> renderable data m) \<longrightarrow> DisplayDataOutput data = NoRenderable)"
proof (intro conjI allI impI)
  fix i
  assume i: "i < length mimeTypes"
    and first: "renderable data (mimeTypes ! i) \<and> (\<forall>j < i. \<not> renderable data (mimeTypes ! j))"
  let ?m = "mimeTypes ! i"
  have f: "find (renderable data) mimeTypes = Some ?m"
    using i first by (auto simp: find_Some_iff)
  obtain v where v: "map_of data ?m = Some v"
    using first by (auto simp: renderable_def split: option.splits)
  obtain r where r: "mime_switch ?m v = Some r" "rendered_mime r = Some ?m"
      "rendered_payload r = Some v"
    using mime_switch_mimeTypes [of ?m v] i by auto
  have "DisplayDataOutput data = r"
    using DisplayDataOutput_loop_find [of mimeTypes data] f v r by (simp add: DisplayDataOutput_def)
  then show "rendered_mime (DisplayDataOutput data) = Some ?m"
    and "rendered_payload (DisplayDataOutput data) = map_of data ?m"
    using r v by simp_all
next
  assume "\<forall>m \<in> set mimeTypes. \<not> renderable data m"
  then have "find (renderable data) mimeTypes = None"
    by (simp add: find_None_iff)
  then show "DisplayDataOutput data = NoRenderable"
    using DisplayDataOutput_loop_find [of mimeTypes data] by (simp add: DisplayDataOutput_def)
qed

text \<open>
  A bundle with markup and plain text shows the markup; a bundle with none of the six
  content types shows the placeholder.
\<close>

theorem DisplayDataOutput_first_renderable_witness:
  "(3::nat) < length mimeTypes \<and> mimeTypes ! 3 = ''text/html'' \<and>
   renderable rich_bundle ''text/html'' \<and>
   \<not> renderable rich_bundle ''image/png'' \<and> \<not> renderable rich_bundle ''image/jpeg'' \<and>
   \<not> renderable rich_bundle ''image/svg+xml'' \<and>
   rendered_mime (DisplayDataOutput rich_bundle) = Some ''text/html'' \<and>
   rendered_payload (DisplayDataOutput rich_bundle) = Some (JStr ''<b>x</b>'') \<and>
   \<not> renderable pdf_bundle ''image/png'' \<and> \<not> renderable pdf_bundle ''image/jpeg'' \<and>
   \<not> renderable pdf_bundle ''image/svg+xml'' \<and> \<not> renderable pdf_bundle ''text/html'' \<and>
   \<not> renderable pdf_bundle ''application/json'' \<and> \<not> renderable pdf_bundle ''text/plain'' \<and>
   DisplayDataOutput pdf_bundle = NoRenderable"
proof -
  have n: "(3::nat) < length mimeTypes" "mimeTypes ! 3 = ''text/html''"
    by (simp_all add: mimeTypes_def)
  have r: "renderable rich_bundle ''text/html''" "\<not> renderable rich_bundle ''image/png''"
    "\<not> renderable rich_bundle ''image/jpeg''" "\<not> renderable rich_bundle ''image/svg+xml''"
    by (simp_all add: renderable_def rich_bundle_def)
  have less3: "\<forall>j < 3. \<not> renderable rich_bundle (mimeTypes ! j)"
  proof (intro allI impI)
    fix j :: nat
    assume "j < 3"
    then have "j = 0 \<or> j = 1 \<or> j = 2" by arith
    then show "\<not> renderable rich_bundle (mimeTypes ! j)"
      using r by (auto simp: mimeTypes_def)
  qed
  have p: "\<not> renderable pdf_bundle ''image/png''" "\<not> renderable pdf_bundle ''image/jpeg''"
    "\<not> renderable pdf_bundle ''image/svg+xml''" "\<not> renderable pdf_bundle ''text/html''"
    "\<not> renderable pdf_bundle ''application/json''" "\<not> renderable pdf_bundle ''text/plain''"
    by (simp_all add: renderable_def pdf_bundle_def)
  then have none: "\<forall>m \<in> set mimeTypes. \<not> renderable pdf_bundle m"
    by (simp add: mimeTypes_def)
  have v: "map_of rich_bundle ''text/html'' = Some (JStr ''<b>x</b>'')"
    by (simp add: rich_bundle_def)
  from DisplayDataOutput_first_renderable [of rich_bundle] n r(1) less3
  have a: "rendered_mime (DisplayDataOutput rich_bundle) = Some ''text/html'' \<and>
           rendered_payload (DisplayDataOutput rich_bundle) = map_of rich_bundle ''text/html''"
    by (metis (no_types, lifting))
  from DisplayDataOutput_first_renderable [of pdf_bundle] none
  have b: "DisplayDataOutput pdf_bundle = NoRenderable"
    by blast
  from n r p a b v show ?thesis
    by simp
qed

text \<open>
  The claim as stated selects the first content type present. In the bundle of an empty
  HTML display object, text/html is the first content type present in the priority order,
  and the renderer shows the plain text.
\<close>

theorem DisplayDataOutput_skips_empty_payload:
  "length html_empty_bundle = 2 \<and> distinct (map fst html_empty_bundle) \<and>
   \<not> present html_empty_bundle ''image/png'' \<and>
   \<not> present html_empty_bundle ''image/jpeg'' \<and>
   \<not> present html_empty_bundle ''image/svg+xml'' \<and>
   present html_empty_bundle ''text/html'' \<and>
   DisplayDataOutput html_empty_bundle = PlainTextOutput (JStr ''<HTML object>'') \<and>
   rendered_mime (DisplayDataOutput html_empty_bundle) \<noteq> Some ''text/html''"
  by (simp add: html_empty_bundle_def present_def DisplayDataOutput_def mimeTypes_def
      mime_switch_def)

end
